theory Spec2Isabelle
  imports Complex_Main "HOL-Library.Log_Nat"
begin

section \<open>Quote totals (quoteCalculations.ts)\<close>

text \<open>
  A JavaScript \<open>number\<close> is read as a real number: the theorems below are about the
  arithmetic the code writes down, not about IEEE rounding. An optional property
  (\<open>undefined\<close> when absent) is an \<open>option\<close>.
\<close>

type_synonym number = real

text \<open>The nullish coalescing operator \<open>a ?? b\<close>.\<close>

fun nullish :: "'a option \<Rightarrow> 'a \<Rightarrow> 'a" where
  "nullish (Some a) b = a"
| "nullish None b = b"

text \<open>\<open>a || 0\<close> on an optional number: \<open>undefined\<close> and \<open>0\<close> are falsy.\<close>

fun or_zero :: "number option \<Rightarrow> number" where
  "or_zero None = 0"
| "or_zero (Some a) = (if a = 0 then 0 else a)"

text \<open>\<open>!v\<close> on an optional number.\<close>

fun falsy :: "number option \<Rightarrow> bool" where
  "falsy None = True"
| "falsy (Some a) = (a = 0)"

text \<open>\<open>!b\<close> on an optional boolean.\<close>

fun not_flag :: "bool option \<Rightarrow> bool" where
  "not_flag None = True"
| "not_flag (Some b) = (\<not> b)"

text \<open>The string union \<open>'percentage' | 'fixed'\<close> of a discount or part payment.\<close>

datatype amount_type = Percentage | Fixed

text \<open>
  Modelled from the spec: the declarations of \<open>QuoteSection\<close>, \<open>Quote\<close> and
  \<open>QuoteDisplayOptions\<close> are in \<open>types.ts\<close>, which is not among the sources. The records
  below hold the properties that the calculation functions read, each optional wherever
  the code guards against its absence.
\<close>

record MaterialItem =
  totalPrice :: "number option"
  isHeading :: "bool option"

record LabourItem =
  hours :: number
  rate :: "number option"

record QuoteSection =
  items :: "MaterialItem list option"
  labourItems :: "LabourItem list option"
  labourHours :: "number option"
  labourRate :: "number option"
  labourCost :: "number option"
  subsectionPrice :: "number option"

text \<open>
  \<open>quoteLabourRate\<close> is the document's \<open>labourRate\<close> (named as the parameter that receives
  it). The three part-payment properties are the settings that the spec's data model
  lists for a document, that the migration \<open>20260117_part_payment_fields.sql\<close> adds to the
  table \<open>quotes\<close>, and that \<open>calculatePartPayment\<close> takes as arguments.
\<close>

record Quote =
  sections :: "QuoteSection list option"
  quoteLabourRate :: "number option"
  markupPercent :: "number option"
  discountType :: "amount_type option"
  discountValue :: "number option"
  taxPercent :: "number option"
  cisPercent :: "number option"
  partPaymentEnabled :: "bool option"
  partPaymentType :: "amount_type option"
  partPaymentValue :: "number option"

text \<open>
  \<open>CalculationOptions\<close> also declares \<open>showVat\<close> and \<open>showCis\<close>; \<open>calculateQuoteTotals\<close>
  reads those two from the display options, so the unused pair carries the prefix
  \<open>calc\<close> here.
\<close>

record CalculationOptions =
  enableVat :: bool
  enableCis :: bool
  calcShowVat :: bool
  calcShowCis :: bool
  defaultLabourRate :: number

record QuoteDisplayOptions =
  showVat :: bool
  showCis :: bool

record QuoteTotals =
  materialsTotal :: number
  labourTotal :: number
  sectionsTotal :: number
  clientSubtotal :: number
  discountAmount :: number
  afterDiscount :: number
  taxAmount :: number
  cisAmount :: number
  grandTotal :: number

text \<open>
  The properties of the object literal that \<open>calculateQuoteTotals\<close> returns, by name and
  in the order of the literal (what \<open>Object.entries\<close> would list).
\<close>

definition QuoteTotals_entries :: "QuoteTotals \<Rightarrow> (string \<times> number) list" where
  "QuoteTotals_entries t =
     [(''materialsTotal'', materialsTotal t),
      (''labourTotal'', labourTotal t),
      (''sectionsTotal'', sectionsTotal t),
      (''clientSubtotal'', clientSubtotal t),
      (''discountAmount'', discountAmount t),
      (''afterDiscount'', afterDiscount t),
      (''taxAmount'', taxAmount t),
      (''cisAmount'', cisAmount t),
      (''grandTotal'', grandTotal t)]"

definition calculateSectionLabour :: "QuoteSection \<Rightarrow> number option \<Rightarrow> number \<Rightarrow> number" where
  "calculateSectionLabour section quoteRate defaultRate =
     (let effectiveRate = nullish (labourRate section) (nullish quoteRate defaultRate) in
      if (case labourItems section of None \<Rightarrow> False | Some ls \<Rightarrow> length ls > 0)
      then foldl (\<lambda>sum item. sum + hours item * nullish (rate item) effectiveRate) 0
             (nullish (labourItems section) [])
      else if labourCost section \<noteq> None
      then nullish (labourCost section) 0
      else or_zero (labourHours section) * effectiveRate)"

definition calculateSectionMaterials :: "QuoteSection \<Rightarrow> number" where
  "calculateSectionMaterials section =
     foldl (\<lambda>sum item. sum + or_zero (totalPrice item)) 0
       (filter (\<lambda>item. not_flag (isHeading item)) (nullish (items section) []))"

definition calculateSectionPrice :: "QuoteSection \<Rightarrow> number \<Rightarrow> number \<Rightarrow> number" where
  "calculateSectionPrice section materials labour =
     (case subsectionPrice section of
        Some p \<Rightarrow> p
      | None \<Rightarrow> materials + labour)"

definition calculateDiscount :: "number \<Rightarrow> amount_type option \<Rightarrow> number option \<Rightarrow> number" where
  "calculateDiscount subtotal dtype dvalue =
     (if falsy dvalue then 0
      else if dtype = Some Percentage then subtotal * (nullish dvalue 0 / 100)
      else nullish dvalue 0)"

definition calculateVat :: "number \<Rightarrow> number option \<Rightarrow> bool \<Rightarrow> bool \<Rightarrow> number" where
  "calculateVat afterDisc taxPct enable shown =
     (if \<not> enable \<or> \<not> shown then 0 else afterDisc * (or_zero taxPct / 100))"

definition calculateCis :: "number \<Rightarrow> number option \<Rightarrow> bool \<Rightarrow> bool \<Rightarrow> number" where
  "calculateCis labour cisPct enable shown =
     (if \<not> enable \<or> \<not> shown then 0 else labour * (or_zero cisPct / 100))"

definition calculatePartPayment ::
  "number \<Rightarrow> bool option \<Rightarrow> amount_type option \<Rightarrow> number option \<Rightarrow> number" where
  "calculatePartPayment grand enabled ptype pvalue =
     (if not_flag enabled \<or> falsy pvalue then 0
      else if ptype = Some Percentage then grand * (nullish pvalue 0 / 100)
      else nullish pvalue 0)"

text \<open>
  One round of the \<open>forEach\<close> over the sections: the three running totals
  \<open>(materialsTotal, labourTotal, sectionsTotal)\<close> after one more section.
\<close>

definition addSection ::
  "number option \<Rightarrow> number \<Rightarrow> number \<times> number \<times> number \<Rightarrow> QuoteSection
     \<Rightarrow> number \<times> number \<times> number" where
  "addSection quoteRate defaultRate acc section =
     (case acc of (mt, lt, st) \<Rightarrow>
        let sectionMaterials = calculateSectionMaterials section;
            sectionLabour = calculateSectionLabour section quoteRate defaultRate;
            sectionPrice = calculateSectionPrice section sectionMaterials sectionLabour
        in (mt + sectionMaterials, lt + sectionLabour, st + sectionPrice))"

definition calculateQuoteTotals ::
  "Quote \<Rightarrow> CalculationOptions \<Rightarrow> QuoteDisplayOptions \<Rightarrow> QuoteTotals" where
  "calculateQuoteTotals quote options displayOptions =
     (let secs = nullish (sections quote) [];
          markupMultiplier = 1 + or_zero (markupPercent quote) / 100
      in case foldl (addSection (quoteLabourRate quote) (defaultLabourRate options)) (0, 0, 0) secs of
        (mt, lt, st) \<Rightarrow>
          let cs = st * markupMultiplier;
              da = calculateDiscount cs (discountType quote) (discountValue quote);
              ad = cs - da;
              ta = calculateVat ad (taxPercent quote) (enableVat options) (showVat displayOptions);
              ca = calculateCis lt (cisPercent quote) (enableCis options) (showCis displayOptions);
              gt = (ad + ta) - ca
          in \<lparr>materialsTotal = mt, labourTotal = lt, sectionsTotal = st, clientSubtotal = cs,
              discountAmount = da, afterDiscount = ad, taxAmount = ta, cisAmount = ca,
              grandTotal = gt\<rparr>)"

subsection \<open>The calculation as the specification words it\<close>

text \<open>The rate of a section: the first present of section rate, document rate, default rate.\<close>

definition effectiveRate_spec :: "QuoteSection \<Rightarrow> number option \<Rightarrow> number \<Rightarrow> number" where
  "effectiveRate_spec section quoteRate defaultRate =
     (case labourRate section of
        Some r \<Rightarrow> r
      | None \<Rightarrow> (case quoteRate of Some r \<Rightarrow> r | None \<Rightarrow> defaultRate))"

text \<open>Labour in strict precedence: itemised, then the direct cost, then hours times rate.\<close>

definition labour_spec :: "QuoteSection \<Rightarrow> number option \<Rightarrow> number \<Rightarrow> number" where
  "labour_spec section quoteRate defaultRate =
     (let r = effectiveRate_spec section quoteRate defaultRate in
      case labourItems section of
        Some (i # is) \<Rightarrow>
          (\<Sum>item \<leftarrow> i # is. hours item * (case rate item of Some x \<Rightarrow> x | None \<Rightarrow> r))
      | _ \<Rightarrow>
          (case labourCost section of
             Some c \<Rightarrow> c
           | None \<Rightarrow> (case labourHours section of Some h \<Rightarrow> h | None \<Rightarrow> 0) * r))"

text \<open>Materials: the prices of the items that are not headings, a missing price counting 0.\<close>

definition materials_spec :: "QuoteSection \<Rightarrow> number" where
  "materials_spec section =
     (\<Sum>item \<leftarrow> filter (\<lambda>item. isHeading item \<noteq> Some True)
                  (case items section of Some xs \<Rightarrow> xs | None \<Rightarrow> []).
        (case totalPrice item of Some p \<Rightarrow> p | None \<Rightarrow> 0))"

subsection \<open>Sample documents\<close>

text \<open>One section: one item of 100 that is no heading, four hours of labour.\<close>

definition sample_item :: MaterialItem where
  "sample_item = \<lparr>totalPrice = Some 100, isHeading = None\<rparr>"

definition sample_section :: QuoteSection where
  "sample_section =
     \<lparr>items = Some [sample_item], labourItems = None, labourHours = Some 4,
      labourRate = None, labourCost = None, subsectionPrice = None\<rparr>"

definition sample_quote :: Quote where
  "sample_quote =
     \<lparr>sections = Some [sample_section], quoteLabourRate = Some 50, markupPercent = Some 0,
      discountType = None, discountValue = None, taxPercent = Some 20, cisPercent = Some 20,
      partPaymentEnabled = None, partPaymentType = None, partPaymentValue = None\<rparr>"

definition sample_options :: CalculationOptions where
  "sample_options =
     \<lparr>enableVat = True, enableCis = False, calcShowVat = True, calcShowCis = False,
      defaultLabourRate = 65\<rparr>"

definition sample_display :: QuoteDisplayOptions where
  "sample_display = \<lparr>showVat = True, showCis = False\<rparr>"

text \<open>A section with both itemised labour (five hours, no rate of its own) and a labour cost.\<close>

definition itemised_section :: QuoteSection where
  "itemised_section =
     \<lparr>items = Some [], labourItems = Some [\<lparr>hours = 5, rate = None\<rparr>], labourHours = Some 0,
      labourRate = None, labourCost = Some 100, subsectionPrice = None\<rparr>"

text \<open>The sample section with its price overridden by 0.\<close>

definition zero_priced_section :: QuoteSection where
  "zero_priced_section = sample_section\<lparr>subsectionPrice := Some 0\<rparr>"

text \<open>The sample document with a fixed deposit of 50 switched on.\<close>

definition deposit_quote :: Quote where
  "deposit_quote =
     sample_quote\<lparr>partPaymentEnabled := Some True, partPaymentType := Some Fixed,
       partPaymentValue := Some 50\<rparr>"

text \<open>
  A document with two sections (the sample section and the itemised one), 10 percent
  markup, a discount of 10 percent, VAT and CIS both enabled and shown.
\<close>

definition full_quote :: Quote where
  "full_quote =
     \<lparr>sections = Some [sample_section, itemised_section], quoteLabourRate = Some 50,
      markupPercent = Some 10, discountType = Some Percentage, discountValue = Some 10,
      taxPercent = Some 20, cisPercent = Some 20,
      partPaymentEnabled = None, partPaymentType = None, partPaymentValue = None\<rparr>"

definition full_options :: CalculationOptions where
  "full_options =
     \<lparr>enableVat = True, enableCis = True, calcShowVat = True, calcShowCis = True,
      defaultLabourRate = 65\<rparr>"

definition full_display :: QuoteDisplayOptions where
  "full_display = \<lparr>showVat = True, showCis = True\<rparr>"

section \<open>Suggested matches (ReconciliationPage.tsx)\<close>

text \<open>
  The component reads every date string through \<open>new Date(...).getTime()\<close>; the records
  hold that time value, in milliseconds. Properties that the matching effect never reads
  (descriptions, vendor, category, status) are left out.
\<close>

record BankTransaction =
  tx_id :: string
  transaction_date :: int
  tx_amount :: number
  tx_is_reconciled :: bool

record Expense =
  exp_id :: string
  exp_amount :: number
  expense_date :: int
  exp_is_reconciled :: bool

record Invoice =
  inv_id :: string
  reference_number :: int
  inv_total :: number
  updated_at :: int

datatype confidence = High | Medium | Low

text \<open>
  The \<open>reason\<close> of a suggestion is a template string; the datatype keeps which template
  was chosen and the numbers that fill it, not their decimal formatting.
\<close>

datatype reason =
  ExactAmountMatch number number
| AmountWithVatMatch number
| InvoiceMatch int number number

record SuggestedMatch =
  transaction :: BankTransaction
  expense :: "Expense option"
  invoice :: "Invoice option"
  confidence :: confidence
  reason :: reason

subsection \<open>Double arithmetic\<close>

text \<open>
  Whether two amounts match is decided by comparing a computed difference with 0.01, so
  the matcher is modelled in the arithmetic the component runs in: IEEE 754 binary64,
  rounding to nearest, ties to even. \<open>fl x\<close> is the double nearest to the real \<open>x\<close>:
  \<open>x\<close> is scaled so that its leading bit sits at position 52, rounded to an integer and
  scaled back; below \<open>2 powi (- 1022)\<close> the spacing stays that of the subnormal numbers.
  The exponent range is not bounded above: amounts and dates stay far below
  \<open>2 powi 1024\<close>.
\<close>

definition round_even :: "real \<Rightarrow> int" where
  "round_even r =
     (let n = \<lfloor>r\<rfloor>;
          d = r - of_int n
      in if d < 1 / 2 then n
         else if d > 1 / 2 then n + 1
         else if even n then n else n + 1)"

text \<open>The binary exponent of a non-zero real: \<open>2 powi expo x \<le> \<bar>x\<bar> < 2 powi (expo x + 1)\<close>.\<close>

definition expo :: "real \<Rightarrow> int" where
  "expo x =
     (if \<bar>x\<bar> \<ge> 1 then bitlen \<lfloor>\<bar>x\<bar>\<rfloor> - 1
      else - bitlen (\<lceil>1 / \<bar>x\<bar>\<rceil> - 1))"

definition fl :: "real \<Rightarrow> real" where
  "fl x =
     (if x = 0 then 0
      else let e = max (expo x) (- 1022)
           in of_int (round_even (x * 2 powi (52 - e))) * 2 powi (e - 52))"

text \<open>
  The operators \<open>-\<close>, \<open>*\<close> and \<open>/\<close> of the component: the exact result of the operation
  on two doubles, rounded. A record may hold the decimal that the database sent (10.01,
  say); the component holds the double nearest to it, so an operand is read through
  \<open>fl\<close>, which leaves a double as it is. A numeric literal of the source (\<open>0.01\<close>, \<open>1.2\<close>)
  is read the same way.
\<close>

definition num_sub :: "number \<Rightarrow> number \<Rightarrow> number" where
  "num_sub a b = fl (fl a - fl b)"

definition num_mul :: "number \<Rightarrow> number \<Rightarrow> number" where
  "num_mul a b = fl (fl a * fl b)"

definition num_div :: "number \<Rightarrow> number \<Rightarrow> number" where
  "num_div a b = fl (fl a / fl b)"

text \<open>\<open>Math.abs((a.getTime() - b.getTime()) / (1000 * 60 * 60 * 24))\<close>.\<close>

definition daysDiff :: "int \<Rightarrow> int \<Rightarrow> number" where
  "daysDiff a b = \<bar>num_div (num_sub (of_int a) (of_int b)) (1000 * 60 * 60 * 24)\<bar>"

text \<open>The callback of the filter over the unreconciled expenses.\<close>

definition expenseMatches :: "number \<Rightarrow> int \<Rightarrow> Expense \<Rightarrow> bool" where
  "expenseMatches txAmount txDate ex =
     (let expAmount = exp_amount ex;
          dd = daysDiff txDate (expense_date ex)
      in if \<bar>num_sub txAmount expAmount\<bar> < fl 0.01 \<and> dd \<le> 7 then True
         else let amountWithVat = num_mul expAmount 1.2
              in if \<bar>num_sub txAmount amountWithVat\<bar> < fl 0.01 \<and> dd \<le> 7
                 then True else False)"

text \<open>The callback of the filter over the paid invoices.\<close>

definition invoiceMatches :: "number \<Rightarrow> int \<Rightarrow> Invoice \<Rightarrow> bool" where
  "invoiceMatches txAmount txDate iv =
     (let invAmount = inv_total iv;
          dd = daysDiff txDate (updated_at iv)
      in \<bar>num_sub txAmount invAmount\<bar> < fl 0.01 \<and> dd \<le> 30)"

text \<open>The first \<open>if\<close> of the loop body: what an outgoing transaction pushes.\<close>

definition suggestExpense :: "BankTransaction \<Rightarrow> Expense list \<Rightarrow> SuggestedMatch list" where
  "suggestExpense tx unreconciledExp =
     (if tx_amount tx < 0
      then let txAmount = \<bar>tx_amount tx\<bar>;
               txDate = transaction_date tx;
               matchingExpenses = filter (expenseMatches txAmount txDate) unreconciledExp
           in (case matchingExpenses of
                 [] \<Rightarrow> []
               | bestMatch # _ \<Rightarrow>
                   let dd = daysDiff txDate (expense_date bestMatch);
                       exactAmount = (\<bar>num_sub txAmount (exp_amount bestMatch)\<bar> < fl 0.01)
                   in [\<lparr>transaction = tx, expense = Some bestMatch, invoice = None,
                        confidence = (if exactAmount \<and> dd \<le> 2 then High
                                      else if dd \<le> 5 then Medium else Low),
                        reason = (if exactAmount then ExactAmountMatch txAmount dd
                                  else AmountWithVatMatch dd)\<rparr>])
      else [])"

text \<open>The second \<open>if\<close> of the loop body: what an incoming transaction pushes.\<close>

definition suggestInvoice :: "BankTransaction \<Rightarrow> Invoice list \<Rightarrow> SuggestedMatch list" where
  "suggestInvoice tx invs =
     (if tx_amount tx > 0
      then let txAmount = tx_amount tx;
               txDate = transaction_date tx;
               matchingInvoices = filter (invoiceMatches txAmount txDate) invs
           in (case matchingInvoices of
                 [] \<Rightarrow> []
               | bestMatch # _ \<Rightarrow>
                   let dd = daysDiff txDate (updated_at bestMatch)
                   in [\<lparr>transaction = tx, expense = None, invoice = Some bestMatch,
                        confidence = (if dd \<le> 7 then High
                                      else if dd \<le> 14 then Medium else Low),
                        reason = InvoiceMatch (reference_number bestMatch)
                                   (inv_total bestMatch) dd\<rparr>])
      else [])"

text \<open>Everything one transaction pushes onto \<open>matches\<close>.\<close>

definition suggestFor ::
  "BankTransaction \<Rightarrow> Expense list \<Rightarrow> Invoice list \<Rightarrow> SuggestedMatch list" where
  "suggestFor tx unreconciledExp invs = suggestExpense tx unreconciledExp @ suggestInvoice tx invs"

text \<open>
  The auto-match effect. With no transactions it returns before computing anything and
  the suggestions held by the component stay as they are (\<open>None\<close>); otherwise it hands
  the list \<open>matches\<close> to \<open>setSuggestions\<close>.
\<close>

definition autoMatch ::
  "BankTransaction list \<Rightarrow> Expense list \<Rightarrow> Invoice list \<Rightarrow> SuggestedMatch list option" where
  "autoMatch txs exps invs =
     (if length txs = 0 then None
      else let unreconciledTx = filter (\<lambda>tx. \<not> tx_is_reconciled tx) txs;
               unreconciledExp = filter (\<lambda>ex. \<not> exp_is_reconciled ex) exps
           in Some (foldl (\<lambda>matches tx. matches @ suggestFor tx unreconciledExp invs) []
                      unreconciledTx))"

subsection \<open>Matching as the specification words it\<close>

text \<open>
  An expense qualifies for an outgoing transaction when the dates are at most 7 days
  apart and the magnitude of the transaction is within 0.01 of the expense amount or of
  the expense amount times 1.2; the difference, the product and the two constants are
  those of the component's double arithmetic.
\<close>

definition qualifies :: "BankTransaction \<Rightarrow> Expense \<Rightarrow> bool" where
  "qualifies t e =
     (daysDiff (transaction_date t) (expense_date e) \<le> 7
      \<and> (\<bar>num_sub \<bar>tx_amount t\<bar> (exp_amount e)\<bar> < fl 0.01
         \<or> \<bar>num_sub \<bar>tx_amount t\<bar> (num_mul (exp_amount e) 1.2)\<bar> < fl 0.01))"

text \<open>
  A paid invoice qualifies for an incoming transaction when the amounts are within 0.01
  of each other and the dates at most 30 days apart, in the same arithmetic.
\<close>

definition invoice_qualifies :: "BankTransaction \<Rightarrow> Invoice \<Rightarrow> bool" where
  "invoice_qualifies t i =
     (\<bar>num_sub (tx_amount t) (inv_total i)\<bar> < fl 0.01
      \<and> daysDiff (transaction_date t) (updated_at i) \<le> 30)"

text \<open>
  The same condition on an expense read in exact arithmetic, the amounts being the
  decimals that the records hold: at most 7 days apart, and
  \<open>| |t.amount| - e.amount | < 0.01\<close> or \<open>| |t.amount| - e.amount * 1.2 | < 0.01\<close>.
\<close>

definition qualifies_exact :: "BankTransaction \<Rightarrow> Expense \<Rightarrow> bool" where
  "qualifies_exact t e =
     (\<bar>real_of_int (transaction_date t - expense_date e) / (1000 * 60 * 60 * 24)\<bar> \<le> 7
      \<and> (\<bar>\<bar>tx_amount t\<bar> - exp_amount e\<bar> < 0.01 \<or> \<bar>\<bar>tx_amount t\<bar> - exp_amount e * 1.2\<bar> < 0.01))"

subsection \<open>Sample data\<close>

text \<open>Day 0 is taken as time 0; a day has 86400000 milliseconds.\<close>

definition tx_out :: BankTransaction where
  "tx_out = \<lparr>tx_id = ''t1'', transaction_date = 0, tx_amount = - 120, tx_is_reconciled = False\<rparr>"

definition tx_zero :: BankTransaction where
  "tx_zero = \<lparr>tx_id = ''t2'', transaction_date = 0, tx_amount = 0, tx_is_reconciled = False\<rparr>"

definition tx_in :: BankTransaction where
  "tx_in = \<lparr>tx_id = ''t3'', transaction_date = 0, tx_amount = 500, tx_is_reconciled = False\<rparr>"

definition exp_far :: Expense where
  "exp_far = \<lparr>exp_id = ''e0'', exp_amount = 120, expense_date = 864000000,
     exp_is_reconciled = False\<rparr>"

definition exp_done :: Expense where
  "exp_done = \<lparr>exp_id = ''e1'', exp_amount = 120, expense_date = 0, exp_is_reconciled = True\<rparr>"

definition exp_net :: Expense where
  "exp_net = \<lparr>exp_id = ''e2'', exp_amount = 100, expense_date = 86400000,
     exp_is_reconciled = False\<rparr>"

definition exp_gross :: Expense where
  "exp_gross = \<lparr>exp_id = ''e3'', exp_amount = 120, expense_date = 0, exp_is_reconciled = False\<rparr>"

definition exp_zero :: Expense where
  "exp_zero = \<lparr>exp_id = ''e4'', exp_amount = 0, expense_date = 0, exp_is_reconciled = False\<rparr>"

definition inv_paid :: Invoice where
  "inv_paid = \<lparr>inv_id = ''i1'', reference_number = 7, inv_total = 500, updated_at = 86400000\<rparr>"

definition inv_zero :: Invoice where
  "inv_zero = \<lparr>inv_id = ''i2'', reference_number = 8, inv_total = 0, updated_at = 0\<rparr>"

text \<open>
  Amounts that are exactly one penny apart in decimal: 10.01 against 10, and 12.05
  against 1.2 times 10.05.
\<close>

definition tx_penny :: BankTransaction where
  "tx_penny = \<lparr>tx_id = ''t4'', transaction_date = 0, tx_amount = - 10.01,
     tx_is_reconciled = False\<rparr>"

definition exp_ten :: Expense where
  "exp_ten = \<lparr>exp_id = ''e5'', exp_amount = 10, expense_date = 0, exp_is_reconciled = False\<rparr>"

definition tx_gross :: BankTransaction where
  "tx_gross = \<lparr>tx_id = ''t5'', transaction_date = 0, tx_amount = - 12.05,
     tx_is_reconciled = False\<rparr>"

definition exp_vat :: Expense where
  "exp_vat = \<lparr>exp_id = ''e6'', exp_amount = 10.05, expense_date = 0,
     exp_is_reconciled = False\<rparr>"

definition sample_txs :: "BankTransaction list" where
  "sample_txs = [tx_zero, tx_out, tx_in]"

definition sample_exps :: "Expense list" where
  "sample_exps = [exp_far, exp_done, exp_net, exp_gross, exp_zero]"

definition sample_invs :: "Invoice list" where
  "sample_invs = [inv_zero, inv_paid]"

section \<open>Settlement functions (20260110_multi_reconciliation.sql)\<close>

text \<open>
  A table with a primary key \<open>id\<close> is a map from ids to rows. The links table is the list
  of its rows in insertion order, without the generated columns \<open>id\<close>
  (\<open>gen_random_uuid()\<close>) and \<open>created_at\<close> (\<open>NOW()\<close>). An amount is a \<open>DECIMAL(10,2)\<close>,
  held in hundredths; a nullable column is an \<open>option\<close>. The tables \<open>bank_transactions\<close>,
  \<open>expenses\<close> and \<open>quotes\<close> are created elsewhere: their rows hold the columns that the
  two functions read or write.
\<close>

type_synonym uuid = nat

type_synonym decimal = int

record bank_transaction_row =
  bt_user_id :: "uuid option"
  bt_is_reconciled :: bool
  bt_reconciled_expense_id :: "uuid option"
  bt_reconciled_invoice_id :: "uuid option"

record expense_row =
  ex_amount :: "decimal option"
  ex_is_reconciled :: bool
  ex_reconciled_transaction_id :: "uuid option"

record quote_row =
  q_total :: "decimal option"

record reconciliation_link =
  rl_user_id :: uuid
  rl_bank_transaction_id :: uuid
  rl_expense_id :: "uuid option"
  rl_invoice_id :: "uuid option"
  rl_amount_matched :: "decimal option"

record database =
  bank_transactions :: "uuid \<rightharpoonup> bank_transaction_row"
  expenses :: "uuid \<rightharpoonup> expense_row"
  quotes :: "uuid \<rightharpoonup> quote_row"
  reconciliation_links :: "reconciliation_link list"

datatype sql_error =
  TransactionNotFound
| CheckViolation
| UniqueViolation
| ForeignKeyViolation

text \<open>
  \<open>INSERT INTO reconciliation_links\<close> under the constraints of the table: the check
  \<open>expense_or_invoice\<close>, the two \<open>UNIQUE\<close> constraints (a \<open>NULL\<close> never equals another
  \<open>NULL\<close> there), and the foreign keys to the three tables.
\<close>

definition insert_link :: "reconciliation_link \<Rightarrow> database \<Rightarrow> sql_error + database" where
  "insert_link l d =
     (if \<not> ((rl_expense_id l \<noteq> None \<and> rl_invoice_id l = None)
             \<or> (rl_expense_id l = None \<and> rl_invoice_id l \<noteq> None))
      then Inl CheckViolation
      else if list_ex (\<lambda>k. rl_bank_transaction_id k = rl_bank_transaction_id l
                 \<and> ((rl_expense_id l \<noteq> None \<and> rl_expense_id k = rl_expense_id l)
                    \<or> (rl_invoice_id l \<noteq> None \<and> rl_invoice_id k = rl_invoice_id l)))
             (reconciliation_links d)
      then Inl UniqueViolation
      else if bank_transactions d (rl_bank_transaction_id l) = None
              \<or> (case rl_expense_id l of None \<Rightarrow> False | Some e \<Rightarrow> expenses d e = None)
              \<or> (case rl_invoice_id l of None \<Rightarrow> False | Some i \<Rightarrow> quotes d i = None)
      then Inl ForeignKeyViolation
      else Inr (d\<lparr>reconciliation_links := reconciliation_links d @ [l]\<rparr>))"

text \<open>
  \<open>SELECT amount INTO v_expense_amount FROM expenses WHERE id = v_expense_id\<close>: \<open>NULL\<close> when
  no row is found.
\<close>

definition select_expense_amount :: "database \<Rightarrow> uuid option \<Rightarrow> decimal option" where
  "select_expense_amount d v_expense_id =
     (case v_expense_id of
        None \<Rightarrow> None
      | Some e \<Rightarrow> (case expenses d e of None \<Rightarrow> None | Some r \<Rightarrow> ex_amount r))"

text \<open>\<open>SELECT total INTO v_invoice_amount FROM quotes WHERE id = v_invoice_id\<close>.\<close>

definition select_invoice_total :: "database \<Rightarrow> uuid option \<Rightarrow> decimal option" where
  "select_invoice_total d v_invoice_id =
     (case v_invoice_id of
        None \<Rightarrow> None
      | Some i \<Rightarrow> (case quotes d i of None \<Rightarrow> None | Some r \<Rightarrow> q_total r))"

text \<open>
  The row that \<open>UPDATE expenses SET is_reconciled = true, reconciled_transaction_id =
  p_transaction_id\<close> leaves.
\<close>

definition mark_row :: "uuid \<Rightarrow> expense_row \<Rightarrow> expense_row" where
  "mark_row t r = r\<lparr>ex_is_reconciled := True, ex_reconciled_transaction_id := Some t\<rparr>"

text \<open>That update \<open>WHERE id = v_expense_id\<close>.\<close>

definition mark_expense :: "uuid \<Rightarrow> uuid option \<Rightarrow> database \<Rightarrow> database" where
  "mark_expense t v_expense_id d =
     (case v_expense_id of
        None \<Rightarrow> d
      | Some e \<Rightarrow>
          (case expenses d e of
             None \<Rightarrow> d
           | Some r \<Rightarrow> d\<lparr>expenses := (expenses d)(e \<mapsto> mark_row t r)\<rparr>))"

text \<open>
  The row of \<open>INSERT INTO reconciliation_links (user_id, bank_transaction_id, expense_id,
  amount_matched)\<close>, and the one with \<open>invoice_id\<close> in place of \<open>expense_id\<close>.
\<close>

definition expense_link ::
  "uuid \<Rightarrow> uuid \<Rightarrow> uuid option \<Rightarrow> decimal option \<Rightarrow> reconciliation_link" where
  "expense_link v_user_id p_transaction_id v_expense_id v_expense_amount =
     \<lparr>rl_user_id = v_user_id, rl_bank_transaction_id = p_transaction_id,
      rl_expense_id = v_expense_id, rl_invoice_id = None,
      rl_amount_matched = v_expense_amount\<rparr>"

definition invoice_link ::
  "uuid \<Rightarrow> uuid \<Rightarrow> uuid option \<Rightarrow> decimal option \<Rightarrow> reconciliation_link" where
  "invoice_link v_user_id p_transaction_id v_invoice_id v_invoice_amount =
     \<lparr>rl_user_id = v_user_id, rl_bank_transaction_id = p_transaction_id,
      rl_expense_id = None, rl_invoice_id = v_invoice_id,
      rl_amount_matched = v_invoice_amount\<rparr>"

text \<open>The loop \<open>FOREACH v_expense_id IN ARRAY p_expense_ids\<close>.\<close>

fun add_expense_links ::
  "uuid \<Rightarrow> uuid \<Rightarrow> uuid option list \<Rightarrow> database \<Rightarrow> sql_error + database" where
  "add_expense_links u t [] d = Inr d"
| "add_expense_links u t (v_expense_id # rest) d =
     (let v_expense_amount = select_expense_amount d v_expense_id in
      case insert_link (expense_link u t v_expense_id v_expense_amount) d of
        Inl err \<Rightarrow> Inl err
      | Inr d1 \<Rightarrow> add_expense_links u t rest (mark_expense t v_expense_id d1))"

text \<open>The loop \<open>FOREACH v_invoice_id IN ARRAY p_invoice_ids\<close>.\<close>

fun add_invoice_links ::
  "uuid \<Rightarrow> uuid \<Rightarrow> uuid option list \<Rightarrow> database \<Rightarrow> sql_error + database" where
  "add_invoice_links u t [] d = Inr d"
| "add_invoice_links u t (v_invoice_id # rest) d =
     (let v_invoice_amount = select_invoice_total d v_invoice_id in
      case insert_link (invoice_link u t v_invoice_id v_invoice_amount) d of
        Inl err \<Rightarrow> Inl err
      | Inr d1 \<Rightarrow> add_invoice_links u t rest d1)"

text \<open>
  \<open>reconcile_transaction_multi(p_transaction_id, p_expense_ids, p_invoice_ids)\<close>. An
  array argument may be \<open>NULL\<close> and may hold \<open>NULL\<close> elements. \<open>Inl\<close> is the exception that
  ends the call.
\<close>

definition reconcile_transaction_multi ::
  "uuid \<Rightarrow> uuid option list option \<Rightarrow> uuid option list option \<Rightarrow> database
     \<Rightarrow> sql_error + database" where
  "reconcile_transaction_multi p_transaction_id p_expense_ids p_invoice_ids d =
     (let v_user_id = (case bank_transactions d p_transaction_id of
                         None \<Rightarrow> None
                       | Some r \<Rightarrow> bt_user_id r)
      in case v_user_id of
        None \<Rightarrow> Inl TransactionNotFound
      | Some u \<Rightarrow>
          let d1 = d\<lparr>reconciliation_links :=
                      filter (\<lambda>l. rl_bank_transaction_id l \<noteq> p_transaction_id)
                        (reconciliation_links d)\<rparr>
          in case (case p_expense_ids of
                     None \<Rightarrow> Inr d1
                   | Some es \<Rightarrow> add_expense_links u p_transaction_id es d1) of
               Inl err \<Rightarrow> Inl err
             | Inr d2 \<Rightarrow>
                 (case (case p_invoice_ids of
                          None \<Rightarrow> Inr d2
                        | Some is \<Rightarrow> add_invoice_links u p_transaction_id is d2) of
                    Inl err \<Rightarrow> Inl err
                  | Inr d3 \<Rightarrow>
                      Inr (d3\<lparr>bank_transactions :=
                             (case bank_transactions d3 p_transaction_id of
                                None \<Rightarrow> bank_transactions d3
                              | Some r \<Rightarrow> (bank_transactions d3)
                                  (p_transaction_id \<mapsto> r\<lparr>bt_is_reconciled := True\<rparr>))\<rparr>)))"

text \<open>\<open>unreconcile_transaction(p_transaction_id)\<close>; it raises nothing.\<close>

definition unreconcile_transaction :: "uuid \<Rightarrow> database \<Rightarrow> database" where
  "unreconcile_transaction p_transaction_id d =
     (let d1 = d\<lparr>expenses :=
                  (\<lambda>i. case expenses d i of
                         None \<Rightarrow> None
                       | Some r \<Rightarrow>
                           if ex_reconciled_transaction_id r = Some p_transaction_id
                           then Some (r\<lparr>ex_is_reconciled := False,
                                        ex_reconciled_transaction_id := None\<rparr>)
                           else Some r)\<rparr>;
          d2 = d1\<lparr>reconciliation_links :=
                   filter (\<lambda>l. rl_bank_transaction_id l \<noteq> p_transaction_id)
                     (reconciliation_links d1)\<rparr>
      in d2\<lparr>bank_transactions :=
             (case bank_transactions d2 p_transaction_id of
                None \<Rightarrow> bank_transactions d2
              | Some r \<Rightarrow> (bank_transactions d2)
                  (p_transaction_id \<mapsto> r\<lparr>bt_is_reconciled := False,
                       bt_reconciled_expense_id := None,
                       bt_reconciled_invoice_id := None\<rparr>))\<rparr>)"

text \<open>
  A call from a client: an exception aborts the statement and leaves the database as it
  was; otherwise the call commits the state the function reached.
\<close>

definition call :: "(database \<Rightarrow> sql_error + database) \<Rightarrow> database \<Rightarrow> database" where
  "call f d = (case f d of Inl err \<Rightarrow> d | Inr d' \<Rightarrow> d')"

text \<open>The links of one transaction.\<close>

definition links_of :: "uuid \<Rightarrow> database \<Rightarrow> reconciliation_link list" where
  "links_of t d = filter (\<lambda>l. rl_bank_transaction_id l = t) (reconciliation_links d)"

subsection \<open>A sample database\<close>

text \<open>
  Transaction 3 of user 9, linked to expense 10 by an earlier reconciliation, and
  transaction 2, unreconciled; expenses 10 and 11; invoice 20.
\<close>

definition sample_db :: database where
  "sample_db =
     \<lparr>bank_transactions =
        [3 \<mapsto> \<lparr>bt_user_id = Some 9, bt_is_reconciled = True, bt_reconciled_expense_id = None,
               bt_reconciled_invoice_id = None\<rparr>,
         2 \<mapsto> \<lparr>bt_user_id = Some 9, bt_is_reconciled = False, bt_reconciled_expense_id = None,
               bt_reconciled_invoice_id = None\<rparr>],
      expenses =
        [10 \<mapsto> \<lparr>ex_amount = Some 12000, ex_is_reconciled = True,
                ex_reconciled_transaction_id = Some 3\<rparr>,
         11 \<mapsto> \<lparr>ex_amount = Some 4550, ex_is_reconciled = False,
                ex_reconciled_transaction_id = None\<rparr>],
      quotes = [20 \<mapsto> \<lparr>q_total = Some 50000\<rparr>],
      reconciliation_links =
        [\<lparr>rl_user_id = 9, rl_bank_transaction_id = 3, rl_expense_id = Some 10,
          rl_invoice_id = None, rl_amount_matched = Some 12000\<rparr>]\<rparr>"

section \<open>Properties of the totals\<close>

lemma foldl_add_sum_list:
  "foldl (\<lambda>s x. s + f x) a xs = a + (\<Sum>x \<leftarrow> xs. f x)" for a :: real
  by (induction xs arbitrary: a) (simp_all add: algebra_simps)

lemma or_zero_nullish: "or_zero v = nullish v 0"
  by (cases v) simp_all

lemma nullish_case: "nullish v d = (case v of Some x \<Rightarrow> x | None \<Rightarrow> d)"
  by (cases v) simp_all

lemma not_flag_iff: "not_flag b = (b \<noteq> Some True)"
  by (cases b) simp_all

lemma calculateSectionMaterials_spec: "calculateSectionMaterials s = materials_spec s"
  by (simp add: calculateSectionMaterials_def materials_spec_def foldl_add_sum_list
      or_zero_nullish nullish_case not_flag_iff)

lemma calculateSectionLabour_spec: "calculateSectionLabour s qr dr = labour_spec s qr dr"
  by (simp add: calculateSectionLabour_def labour_spec_def effectiveRate_spec_def
      foldl_add_sum_list or_zero_nullish nullish_case Let_def
      split: option.splits list.splits)

lemma itemised_labour: "calculateSectionLabour itemised_section (Some 50) 65 = 250"
  by (simp add: calculateSectionLabour_def itemised_section_def)

lemma sample_totals:
  "calculateQuoteTotals sample_quote sample_options sample_display =
     \<lparr>materialsTotal = 100, labourTotal = 200, sectionsTotal = 300, clientSubtotal = 300,
      discountAmount = 0, afterDiscount = 300, taxAmount = 60, cisAmount = 0,
      grandTotal = 360\<rparr>"
  by (simp add: calculateQuoteTotals_def sample_quote_def sample_options_def
      sample_display_def addSection_def calculateSectionMaterials_def
      calculateSectionLabour_def calculateSectionPrice_def sample_section_def
      sample_item_def calculateDiscount_def calculateVat_def calculateCis_def Let_def)

lemma totals_ignore_part_payment:
  "calculateQuoteTotals
     (q\<lparr>partPaymentEnabled := e, partPaymentType := ty, partPaymentValue := v\<rparr>) opts d =
   calculateQuoteTotals q opts d"
  by (simp add: calculateQuoteTotals_def)

lemma foldl_addSection:
  "foldl (addSection qr dr) (a, b, c) secs =
     (a + (\<Sum>s \<leftarrow> secs. calculateSectionMaterials s),
      b + (\<Sum>s \<leftarrow> secs. calculateSectionLabour s qr dr),
      c + (\<Sum>s \<leftarrow> secs. calculateSectionPrice s (calculateSectionMaterials s)
                         (calculateSectionLabour s qr dr)))"
  by (induction secs arbitrary: a b c) (simp_all add: addSection_def Let_def algebra_simps)

lemma calculateQuoteTotals_sums:
  "materialsTotal (calculateQuoteTotals q opts d) =
     (\<Sum>s \<leftarrow> nullish (sections q) []. materials_spec s)"
  "labourTotal (calculateQuoteTotals q opts d) =
     (\<Sum>s \<leftarrow> nullish (sections q) []. labour_spec s (quoteLabourRate q) (defaultLabourRate opts))"
  "sectionsTotal (calculateQuoteTotals q opts d) =
     (\<Sum>s \<leftarrow> nullish (sections q) [].
        case subsectionPrice s of
          Some p \<Rightarrow> p
        | None \<Rightarrow> materials_spec s
            + labour_spec s (quoteLabourRate q) (defaultLabourRate opts))"
  by (simp_all add: calculateQuoteTotals_def Let_def foldl_addSection
      calculateSectionPrice_def calculateSectionMaterials_spec calculateSectionLabour_spec)

lemma calculateQuoteTotals_amounts:
  "discountAmount (calculateQuoteTotals q opts d) =
     (case discountValue q of
        None \<Rightarrow> 0
      | Some v \<Rightarrow>
          if v = 0 then 0
          else if discountType q = Some Percentage
          then clientSubtotal (calculateQuoteTotals q opts d) * (v / 100)
          else v)"
  "taxAmount (calculateQuoteTotals q opts d) =
     (if enableVat opts \<and> showVat d
      then afterDiscount (calculateQuoteTotals q opts d)
             * ((case taxPercent q of None \<Rightarrow> 0 | Some p \<Rightarrow> p) / 100)
      else 0)"
  "cisAmount (calculateQuoteTotals q opts d) =
     (if enableCis opts \<and> showCis d
      then labourTotal (calculateQuoteTotals q opts d)
             * ((case cisPercent q of None \<Rightarrow> 0 | Some p \<Rightarrow> p) / 100)
      else 0)"
  by (simp_all add: calculateQuoteTotals_def Let_def calculateDiscount_def calculateVat_def
      calculateCis_def split: prod.split option.split)

text \<open>
  C1: for every document and options, \<open>calculateQuoteTotals\<close> returns
  \<open>clientSubtotal = sectionsTotal * (1 + markupPercent / 100)\<close> (an absent markup counting
  as 0), \<open>afterDiscount = clientSubtotal - discountAmount\<close> and
  \<open>grandTotal = afterDiscount + taxAmount - cisAmount\<close>, where \<open>materialsTotal\<close>,
  \<open>labourTotal\<close> and \<open>sectionsTotal\<close> are the sums over the document's sections of the
  materials, the labour and the price of each section, \<open>discountAmount\<close> is 0 for a falsy
  discount value, the percentage of \<open>clientSubtotal\<close> for the type \<open>percentage\<close> and the
  value itself otherwise, \<open>taxAmount\<close> is \<open>afterDiscount * taxPercent / 100\<close> when VAT is
  enabled and shown and 0 otherwise, and \<open>cisAmount\<close> is \<open>labourTotal * cisPercent / 100\<close>
  when CIS is enabled and shown and 0 otherwise. The sample document (one section, one
  item of 100, four hours at the document rate 50, no markup, 20 percent VAT enabled and
  shown, CIS disabled) has the totals 100, 200, 300, 300, 300, 60, 0 and 360.
\<close>

theorem calculateQuoteTotals_formulas:
  "materialsTotal (calculateQuoteTotals q opts d) =
     (\<Sum>s \<leftarrow> nullish (sections q) []. materials_spec s)
   \<and> labourTotal (calculateQuoteTotals q opts d) =
     (\<Sum>s \<leftarrow> nullish (sections q) []. labour_spec s (quoteLabourRate q) (defaultLabourRate opts))
   \<and> sectionsTotal (calculateQuoteTotals q opts d) =
     (\<Sum>s \<leftarrow> nullish (sections q) [].
        case subsectionPrice s of
          Some p \<Rightarrow> p
        | None \<Rightarrow> materials_spec s
            + labour_spec s (quoteLabourRate q) (defaultLabourRate opts))
   \<and> clientSubtotal (calculateQuoteTotals q opts d) =
     sectionsTotal (calculateQuoteTotals q opts d) * (1 + or_zero (markupPercent q) / 100)
   \<and> discountAmount (calculateQuoteTotals q opts d) =
     (case discountValue q of
        None \<Rightarrow> 0
      | Some v \<Rightarrow>
          if v = 0 then 0
          else if discountType q = Some Percentage
          then clientSubtotal (calculateQuoteTotals q opts d) * (v / 100)
          else v)
   \<and> afterDiscount (calculateQuoteTotals q opts d) =
     clientSubtotal (calculateQuoteTotals q opts d) - discountAmount (calculateQuoteTotals q opts d)
   \<and> taxAmount (calculateQuoteTotals q opts d) =
     (if enableVat opts \<and> showVat d
      then afterDiscount (calculateQuoteTotals q opts d)
             * ((case taxPercent q of None \<Rightarrow> 0 | Some p \<Rightarrow> p) / 100)
      else 0)
   \<and> cisAmount (calculateQuoteTotals q opts d) =
     (if enableCis opts \<and> showCis d
      then labourTotal (calculateQuoteTotals q opts d)
             * ((case cisPercent q of None \<Rightarrow> 0 | Some p \<Rightarrow> p) / 100)
      else 0)
   \<and> grandTotal (calculateQuoteTotals q opts d) =
     afterDiscount (calculateQuoteTotals q opts d) + taxAmount (calculateQuoteTotals q opts d)
       - cisAmount (calculateQuoteTotals q opts d)
   \<and> calculateQuoteTotals sample_quote sample_options sample_display =
     \<lparr>materialsTotal = 100, labourTotal = 200, sectionsTotal = 300, clientSubtotal = 300,
      discountAmount = 0, afterDiscount = 300, taxAmount = 60, cisAmount = 0,
      grandTotal = 360\<rparr>"
proof -
  have relations:
    "clientSubtotal (calculateQuoteTotals q opts d) =
       sectionsTotal (calculateQuoteTotals q opts d) * (1 + or_zero (markupPercent q) / 100)"
    "afterDiscount (calculateQuoteTotals q opts d) =
       clientSubtotal (calculateQuoteTotals q opts d)
         - discountAmount (calculateQuoteTotals q opts d)"
    "grandTotal (calculateQuoteTotals q opts d) =
       afterDiscount (calculateQuoteTotals q opts d) + taxAmount (calculateQuoteTotals q opts d)
         - cisAmount (calculateQuoteTotals q opts d)"
    by (simp_all add: calculateQuoteTotals_def Let_def split: prod.split)
  show ?thesis
    using calculateQuoteTotals_sums [of q opts d] calculateQuoteTotals_amounts [of q opts d]
      relations sample_totals
    by (intro conjI) assumption+
qed

theorem calculateQuoteTotals_formulas_witness:
  "clientSubtotal (calculateQuoteTotals deposit_quote sample_options sample_display) =
     sectionsTotal (calculateQuoteTotals deposit_quote sample_options sample_display) * (1 + 0 / 100)
   \<and> grandTotal (calculateQuoteTotals deposit_quote sample_options sample_display) =
     afterDiscount (calculateQuoteTotals deposit_quote sample_options sample_display)
       + taxAmount (calculateQuoteTotals deposit_quote sample_options sample_display)
       - cisAmount (calculateQuoteTotals deposit_quote sample_options sample_display)
   \<and> materialsTotal (calculateQuoteTotals full_quote full_options full_display) = 100
   \<and> labourTotal (calculateQuoteTotals full_quote full_options full_display) = 450
   \<and> sectionsTotal (calculateQuoteTotals full_quote full_options full_display) = 550
   \<and> clientSubtotal (calculateQuoteTotals full_quote full_options full_display) = 605
   \<and> discountAmount (calculateQuoteTotals full_quote full_options full_display) = 60.5
   \<and> afterDiscount (calculateQuoteTotals full_quote full_options full_display) = 544.5
   \<and> taxAmount (calculateQuoteTotals full_quote full_options full_display) = 108.9
   \<and> cisAmount (calculateQuoteTotals full_quote full_options full_display) = 90
   \<and> grandTotal (calculateQuoteTotals full_quote full_options full_display) = 563.4"
proof -
  note general = calculateQuoteTotals_formulas [of full_quote full_options full_display]
  have sums:
    "(\<Sum>s \<leftarrow> nullish (sections full_quote) []. materials_spec s) = 100"
    "(\<Sum>s \<leftarrow> nullish (sections full_quote) [].
        labour_spec s (quoteLabourRate full_quote) (defaultLabourRate full_options)) = 450"
    "(\<Sum>s \<leftarrow> nullish (sections full_quote) [].
        case subsectionPrice s of
          Some p \<Rightarrow> p
        | None \<Rightarrow> materials_spec s
            + labour_spec s (quoteLabourRate full_quote) (defaultLabourRate full_options)) = 550"
    by (simp_all add: full_quote_def full_options_def sample_section_def itemised_section_def
        sample_item_def materials_spec_def labour_spec_def effectiveRate_spec_def)
  have settings:
    "or_zero (markupPercent full_quote) = 10" "discountValue full_quote = Some 10"
    "discountType full_quote = Some Percentage" "taxPercent full_quote = Some 20"
    "cisPercent full_quote = Some 20" "enableVat full_options = True"
    "showVat full_display = True" "enableCis full_options = True"
    "showCis full_display = True"
    by (simp_all add: full_quote_def full_options_def full_display_def)
  note r1 = general [THEN conjunct2]
  note r2 = r1 [THEN conjunct2]
  note r3 = r2 [THEN conjunct2]
  note r4 = r3 [THEN conjunct2]
  note r5 = r4 [THEN conjunct2]
  note r6 = r5 [THEN conjunct2]
  note r7 = r6 [THEN conjunct2]
  note r8 = r7 [THEN conjunct2]
  have m: "materialsTotal (calculateQuoteTotals full_quote full_options full_display) = 100"
    using general [THEN conjunct1] unfolding sums(1) .
  have l: "labourTotal (calculateQuoteTotals full_quote full_options full_display) = 450"
    using r1 [THEN conjunct1] unfolding sums(2) .
  have s: "sectionsTotal (calculateQuoteTotals full_quote full_options full_display) = 550"
    using r2 [THEN conjunct1] unfolding sums(3) .
  have c: "clientSubtotal (calculateQuoteTotals full_quote full_options full_display) = 605"
    using r3 [THEN conjunct1] by (simp add: s settings)
  have da: "discountAmount (calculateQuoteTotals full_quote full_options full_display) = 60.5"
    using r4 [THEN conjunct1] by (simp add: c settings)
  have ad: "afterDiscount (calculateQuoteTotals full_quote full_options full_display) = 544.5"
    using r5 [THEN conjunct1] by (simp add: c da)
  have ta: "taxAmount (calculateQuoteTotals full_quote full_options full_display) = 108.9"
    using r6 [THEN conjunct1] by (simp add: ad settings)
  have ca: "cisAmount (calculateQuoteTotals full_quote full_options full_display) = 90"
    using r7 [THEN conjunct1] by (simp add: l settings)
  have gt: "grandTotal (calculateQuoteTotals full_quote full_options full_display) = 563.4"
    using r8 [THEN conjunct1] by (simp add: ad ta ca)
  note full = m l s c da ad ta ca gt
  show ?thesis
    using calculateQuoteTotals_formulas [of deposit_quote sample_options sample_display] full
    by (simp add: deposit_quote_def sample_quote_def)
qed

text \<open>
  C2: the labour of a section follows a strict precedence: a non-empty \<open>labourItems\<close> gives
  the sum of \<open>hours * (rate ?? effectiveRate)\<close>; otherwise a defined \<open>labourCost\<close> (0
  included) is returned as it is; otherwise \<open>(labourHours ?? 0) * effectiveRate\<close>, the
  effective rate being the first present of section rate, document rate and default rate.
  A section with \<open>labourItems = [{hours: 5}]\<close>, \<open>labourCost = 100\<close> and rate 50 has labour
  250, not 100.
\<close>

theorem calculateSectionLabour_precedence:
  "calculateSectionLabour s qr dr = labour_spec s qr dr
   \<and> calculateSectionLabour itemised_section (Some 50) 65 = 250
   \<and> calculateSectionLabour itemised_section (Some 50) 65 \<noteq> 100"
  using calculateSectionLabour_spec [of s qr dr] itemised_labour by simp

theorem calculateSectionLabour_precedence_witness:
  "calculateSectionLabour (sample_section\<lparr>labourCost := Some 0\<rparr>) None 65 = 0
   \<and> calculateSectionLabour sample_section None 65 = 260
   \<and> calculateSectionLabour (sample_section\<lparr>labourRate := Some 75\<rparr>) (Some 50) 65 = 300"
  using calculateSectionLabour_precedence [of "sample_section\<lparr>labourCost := Some 0\<rparr>" None 65]
    calculateSectionLabour_precedence [of sample_section None 65]
    calculateSectionLabour_precedence [of "sample_section\<lparr>labourRate := Some 75\<rparr>" "Some 50" 65]
  by (simp add: labour_spec_def effectiveRate_spec_def sample_section_def)

text \<open>
  C6: the materials of a section are the sum of \<open>totalPrice\<close> over the items that are not
  headings, a missing \<open>totalPrice\<close> counting 0; the price of a section is its
  \<open>subsectionPrice\<close> whenever that is defined, 0 included, and materials plus labour
  otherwise. With materials 100, labour 200 and \<open>subsectionPrice = 0\<close> the price is 0.
\<close>

theorem section_materials_and_price:
  "calculateSectionMaterials s = materials_spec s
   \<and> (subsectionPrice s = Some p \<longrightarrow> calculateSectionPrice s m l = p)
   \<and> (subsectionPrice s = None \<longrightarrow> calculateSectionPrice s m l = m + l)
   \<and> calculateSectionMaterials zero_priced_section = 100
   \<and> calculateSectionLabour zero_priced_section (Some 50) 65 = 200
   \<and> calculateSectionPrice zero_priced_section 100 200 = 0"
  by (simp add: calculateSectionMaterials_spec calculateSectionPrice_def)
    (simp add: materials_spec_def calculateSectionLabour_def zero_priced_section_def
      sample_section_def sample_item_def)

theorem section_materials_and_price_witness:
  "subsectionPrice zero_priced_section = Some 0
   \<and> calculateSectionPrice zero_priced_section 100 200 = 0
   \<and> subsectionPrice sample_section = None
   \<and> calculateSectionPrice sample_section 100 200 = 300
   \<and> calculateSectionMaterials
       (sample_section\<lparr>items := Some [\<lparr>totalPrice = Some 7, isHeading = Some True\<rparr>,
          \<lparr>totalPrice = None, isHeading = Some False\<rparr>, sample_item]\<rparr>) = 100"
  using section_materials_and_price [of zero_priced_section 0 100 200]
    section_materials_and_price [of sample_section 0 100 200]
    section_materials_and_price
      [of "sample_section\<lparr>items := Some [\<lparr>totalPrice = Some 7, isHeading = Some True\<rparr>,
          \<lparr>totalPrice = None, isHeading = Some False\<rparr>, sample_item]\<rparr>" 0 0 0]
  by (simp add: zero_priced_section_def sample_section_def materials_spec_def sample_item_def)

text \<open>
  C7: \<open>calculateDiscount\<close> returns 0 whenever the discount value is falsy (zero or unset);
  otherwise \<open>subtotal * value / 100\<close> for the type \<open>percentage\<close>, and the value itself, as a
  fixed amount, for any other type, \<open>undefined\<close> included.
  \<open>calculateDiscount(1000, 'percentage', 10) = 100\<close>,
  \<open>calculateDiscount(1000, undefined, 50) = 50\<close>, \<open>calculateDiscount(x, anything, 0) = 0\<close>.
\<close>

theorem calculateDiscount_cases:
  "(v = None \<or> v = Some 0 \<longrightarrow> calculateDiscount x t v = 0)
   \<and> (a \<noteq> 0 \<longrightarrow> calculateDiscount x (Some Percentage) (Some a) = x * a / 100)
   \<and> (a \<noteq> 0 \<and> t \<noteq> Some Percentage \<longrightarrow> calculateDiscount x t (Some a) = a)
   \<and> calculateDiscount 1000 (Some Percentage) (Some 10) = 100
   \<and> calculateDiscount 1000 None (Some 50) = 50
   \<and> calculateDiscount x t (Some 0) = 0"
  by (auto simp add: calculateDiscount_def)

theorem calculateDiscount_cases_witness:
  "calculateDiscount 1000 (Some Fixed) None = 0
   \<and> calculateDiscount 500 (Some Percentage) (Some 25) = 125
   \<and> calculateDiscount 1000 (Some Fixed) (Some 150) = 150"
  using calculateDiscount_cases [of None 1000 "Some Fixed" 25]
    calculateDiscount_cases [of None 500 "Some Fixed" 25]
    calculateDiscount_cases [of None 1000 "Some Fixed" 150]
  by simp

text \<open>
  C8 as the code has it: the entry point is a function of the document, the calculation
  options and the display options, and the record it returns has exactly nine numeric
  fields: \<open>materialsTotal\<close>, \<open>labourTotal\<close>, \<open>sectionsTotal\<close>, \<open>clientSubtotal\<close>,
  \<open>discountAmount\<close>, \<open>afterDiscount\<close>, \<open>taxAmount\<close>, \<open>cisAmount\<close> and \<open>grandTotal\<close>. The
  part-payment amount is none of them and no field depends on the part-payment settings
  of the document; \<open>calculatePartPayment\<close> computes it apart, from a grand total.
\<close>

theorem QuoteTotals_nine_fields:
  "map fst (QuoteTotals_entries (calculateQuoteTotals q opts d)) =
     [''materialsTotal'', ''labourTotal'', ''sectionsTotal'', ''clientSubtotal'',
      ''discountAmount'', ''afterDiscount'', ''taxAmount'', ''cisAmount'', ''grandTotal'']
   \<and> length (QuoteTotals_entries (calculateQuoteTotals q opts d)) = 9
   \<and> calculateQuoteTotals
       (q\<lparr>partPaymentEnabled := e, partPaymentType := ty, partPaymentValue := v\<rparr>) opts d =
     calculateQuoteTotals q opts d"
  by (simp add: QuoteTotals_entries_def totals_ignore_part_payment)

theorem QuoteTotals_nine_fields_witness:
  "length (QuoteTotals_entries (calculateQuoteTotals deposit_quote sample_options sample_display)) = 9
   \<and> calculateQuoteTotals deposit_quote sample_options sample_display =
     calculateQuoteTotals sample_quote sample_options sample_display"
  using QuoteTotals_nine_fields [where q = sample_quote and opts = sample_options
      and d = sample_display and e = "Some True" and ty = "Some Fixed" and v = "Some 50"]
    QuoteTotals_nine_fields [where q = deposit_quote and opts = sample_options
      and d = sample_display and e = None and ty = None and v = None]
  by (simp add: deposit_quote_def)

text \<open>
  C8 as stated fails: for the sample document with a deposit of 50 the returned record
  has nine fields, not eleven, and the part-payment amount 50 is the value of none of
  them.
\<close>

theorem QuoteTotals_eleven_fields_counterexample:
  "length (QuoteTotals_entries
      (calculateQuoteTotals deposit_quote sample_options sample_display)) \<noteq> 11
   \<and> calculatePartPayment
       (grandTotal (calculateQuoteTotals deposit_quote sample_options sample_display))
       (partPaymentEnabled deposit_quote) (partPaymentType deposit_quote)
       (partPaymentValue deposit_quote) = 50
   \<and> 50 \<notin> snd ` set (QuoteTotals_entries
       (calculateQuoteTotals deposit_quote sample_options sample_display))"
proof -
  have "calculateQuoteTotals deposit_quote sample_options sample_display =
      calculateQuoteTotals sample_quote sample_options sample_display"
    by (simp add: deposit_quote_def totals_ignore_part_payment)
  then show ?thesis
    by (simp add: sample_totals QuoteTotals_entries_def calculatePartPayment_def
        deposit_quote_def)
qed

section \<open>Properties of the suggested matches\<close>




lemma foldl_append_concat:
  "foldl (\<lambda>acc x. acc @ f x) a xs = a @ concat (map f xs)"
  by (induction xs arbitrary: a) simp_all


lemma suggestInvoice_not_positive: "\<not> tx_amount t > 0 \<Longrightarrow> suggestInvoice t invs = []"
  by (simp add: suggestInvoice_def)

lemma suggestExpense_not_negative: "\<not> tx_amount t < 0 \<Longrightarrow> suggestExpense t ue = []"
  by (simp add: suggestExpense_def)




lemma suggestFor_amount: "m \<in> set (suggestFor t ue invs) \<Longrightarrow> tx_amount (transaction m) \<noteq> 0"
  by (auto simp add: suggestFor_def suggestExpense_def suggestInvoice_def Let_def
      split: if_splits list.splits)

lemma autoMatch_concat:
  "autoMatch txs exps invs =
     (if txs = [] then None
      else Some (concat (map (\<lambda>t. suggestFor t (filter (\<lambda>e. \<not> exp_is_reconciled e) exps) invs)
                   (filter (\<lambda>t. \<not> tx_is_reconciled t) txs))))"
  by (simp add: autoMatch_def foldl_append_concat)



lemma zero_samples:
  "qualifies tx_zero exp_zero" "invoice_qualifies tx_zero inv_zero"
  by code_simp+

lemma penny_samples:
  "\<not> qualifies_exact tx_penny exp_ten" "\<not> qualifies_exact tx_gross exp_vat"
  "qualifies tx_penny exp_ten" "qualifies tx_gross exp_vat"
  by code_simp+

lemma sample_run_length:
  "map_option length (autoMatch sample_txs sample_exps sample_invs) = Some 2"
  by code_simp




text \<open>
  C3 as stated fails when the test is read in exact arithmetic: the outgoing transaction
  of 12.05 and the unreconciled expense of 10.05 on the same day differ by 2, and 12.05
  differs from 1.2 times 10.05 by exactly 0.01, which is not below 0.01, yet the
  generator suggests the expense; so it does for 10.01 against an expense of 10.
\<close>

theorem exact_amount_test_counterexample:
  "tx_amount tx_gross < 0 \<and> \<not> tx_is_reconciled tx_gross \<and> \<not> exp_is_reconciled exp_vat
   \<and> \<not> qualifies_exact tx_gross exp_vat
   \<and> map (\<lambda>m. (transaction m, expense m, invoice m))
       (suggestFor tx_gross (filter (\<lambda>e. \<not> exp_is_reconciled e) [exp_vat]) []) =
     [(tx_gross, Some exp_vat, None)]
   \<and> tx_amount tx_penny < 0 \<and> \<not> tx_is_reconciled tx_penny \<and> \<not> exp_is_reconciled exp_ten
   \<and> \<not> qualifies_exact tx_penny exp_ten
   \<and> map (\<lambda>m. (transaction m, expense m, invoice m))
       (suggestFor tx_penny (filter (\<lambda>e. \<not> exp_is_reconciled e) [exp_ten]) []) =
     [(tx_penny, Some exp_ten, None)]"
  by code_simp

text \<open>
  C10: a transaction whose amount is exactly 0 produces no suggestion: the outgoing
  branch asks for an amount below 0 and the incoming branch for an amount above 0, so no
  suggestion of a run belongs to a zero-amount transaction.
\<close>

theorem zero_amount_skipped:
  "(tx_amount t = 0 \<longrightarrow> suggestExpense t ue = [] \<and> suggestInvoice t invs = []
      \<and> suggestFor t ue invs = [])
   \<and> (autoMatch txs exps invs = Some ms \<longrightarrow> (\<forall>m\<in>set ms. tx_amount (transaction m) \<noteq> 0))"
proof -
  have "tx_amount t = 0 \<longrightarrow> suggestExpense t ue = [] \<and> suggestInvoice t invs = []
      \<and> suggestFor t ue invs = []"
    by (simp add: suggestFor_def suggestExpense_not_negative suggestInvoice_not_positive)
  moreover have "autoMatch txs exps invs = Some ms \<longrightarrow>
      (\<forall>m\<in>set ms. tx_amount (transaction m) \<noteq> 0)"
    by (auto simp add: autoMatch_concat split: if_splits dest: suggestFor_amount)
  ultimately show ?thesis
    by simp
qed

theorem zero_amount_skipped_witness:
  "tx_amount tx_zero = 0
   \<and> qualifies tx_zero exp_zero \<and> invoice_qualifies tx_zero inv_zero
   \<and> suggestFor tx_zero [exp_zero] [inv_zero] = []
   \<and> (\<exists>ms. autoMatch sample_txs sample_exps sample_invs = Some ms
        \<and> length ms = 2 \<and> \<not> (\<exists>m\<in>set ms. tx_amount (transaction m) = 0))"
proof -
  obtain ms where ms: "autoMatch sample_txs sample_exps sample_invs = Some ms"
    by (simp add: autoMatch_def sample_txs_def)
  have zero: "tx_amount tx_zero = 0"
    by (simp add: tx_zero_def)
  have "suggestFor tx_zero [exp_zero] [inv_zero] = []"
    using zero_amount_skipped [where t = tx_zero and ue = "[exp_zero]" and invs = "[inv_zero]"
        and txs = "[]" and exps = "[]" and ms = "[]"] zero
    by simp
  moreover have "\<forall>m\<in>set ms. tx_amount (transaction m) \<noteq> 0"
    using zero_amount_skipped [where t = tx_zero and ue = "[]" and invs = sample_invs
        and txs = sample_txs and exps = sample_exps and ms = ms] ms
    by simp
  moreover have "qualifies tx_zero exp_zero \<and> invoice_qualifies tx_zero inv_zero"
    by (simp add: zero_samples)
  moreover have "length ms = 2"
    using ms sample_run_length by simp
  ultimately show ?thesis
    using zero ms by simp
qed

section \<open>Properties of the settlement functions\<close>

lemma insert_expense_link_Inr:
  "insert_link (expense_link u t e a) d = Inr d' \<longleftrightarrow>
     (\<exists>x. e = Some x \<and> expenses d x \<noteq> None)
     \<and> (\<forall>k\<in>set (reconciliation_links d). rl_bank_transaction_id k = t \<longrightarrow> rl_expense_id k \<noteq> e)
     \<and> bank_transactions d t \<noteq> None
     \<and> d' = d\<lparr>reconciliation_links := reconciliation_links d @ [expense_link u t e a]\<rparr>"
  unfolding insert_link_def expense_link_def list_ex_iff
  by (cases e) auto

lemma insert_invoice_link_Inr:
  "insert_link (invoice_link u t e a) d = Inr d' \<longleftrightarrow>
     (\<exists>x. e = Some x \<and> quotes d x \<noteq> None)
     \<and> (\<forall>k\<in>set (reconciliation_links d). rl_bank_transaction_id k = t \<longrightarrow> rl_invoice_id k \<noteq> e)
     \<and> bank_transactions d t \<noteq> None
     \<and> d' = d\<lparr>reconciliation_links := reconciliation_links d @ [invoice_link u t e a]\<rparr>"
  unfolding insert_link_def invoice_link_def list_ex_iff
  by (cases e) auto

lemma mark_expense_Some:
  "mark_expense t (Some x) d =
     d\<lparr>expenses := (expenses d)(x := map_option (mark_row t) (expenses d x))\<rparr>"
  by (cases "expenses d x") (simp_all add: mark_expense_def fun_upd_idem)

lemma select_expense_amount_upd:
  "select_expense_amount
     (d\<lparr>reconciliation_links := ls,
        expenses := (expenses d)(x := map_option (mark_row t) (expenses d x))\<rparr>) e =
   select_expense_amount d e"
  by (cases e; cases "expenses d x")
    (simp_all add: select_expense_amount_def mark_row_def split: option.splits)

lemma add_expense_links_Inr:
  "add_expense_links u t es d = Inr d' \<longleftrightarrow>
     None \<notin> set es \<and> distinct es
     \<and> (\<forall>x. Some x \<in> set es \<longrightarrow> expenses d x \<noteq> None)
     \<and> (\<forall>k\<in>set (reconciliation_links d).
           rl_bank_transaction_id k = t \<longrightarrow> rl_expense_id k \<notin> set es)
     \<and> (es \<noteq> [] \<longrightarrow> bank_transactions d t \<noteq> None)
     \<and> d' = d\<lparr>reconciliation_links := reconciliation_links d
                  @ map (\<lambda>e. expense_link u t e (select_expense_amount d e)) es,
               expenses := (\<lambda>i. if Some i \<in> set es then map_option (mark_row t) (expenses d i)
                                 else expenses d i)\<rparr>"
proof (induction es arbitrary: d)
  case Nil
  show ?case by auto
next
  case (Cons e es)
  show ?case
  proof (cases e)
    case None
    then show ?thesis
      by (simp add: insert_expense_link_Inr split: sum.splits)
  next
    case (Some x)
    let ?l = "expense_link u t e (select_expense_amount d e)"
    let ?d2 = "d\<lparr>reconciliation_links := reconciliation_links d @ [?l],
        expenses := (expenses d)(x := map_option (mark_row t) (expenses d x))\<rparr>"
    have step: "add_expense_links u t (e # es) d = Inr d' \<longleftrightarrow>
        expenses d x \<noteq> None
        \<and> (\<forall>k\<in>set (reconciliation_links d). rl_bank_transaction_id k = t \<longrightarrow> rl_expense_id k \<noteq> e)
        \<and> bank_transactions d t \<noteq> None
        \<and> add_expense_links u t es ?d2 = Inr d'"
    proof (cases "insert_link ?l d")
      case (Inl err)
      then have "\<not> (expenses d x \<noteq> None
        \<and> (\<forall>k\<in>set (reconciliation_links d). rl_bank_transaction_id k = t \<longrightarrow> rl_expense_id k \<noteq> e)
        \<and> bank_transactions d t \<noteq> None)"
        using Some
          insert_expense_link_Inr [of u t e "select_expense_amount d e" d
            "d\<lparr>reconciliation_links := reconciliation_links d @ [?l]\<rparr>"]
        by auto
      with Inl show ?thesis
        by auto
    next
      case (Inr d1)
      have run: "add_expense_links u t (e # es) d = add_expense_links u t es (mark_expense t e d1)"
        by (simp add: Inr)
      from Inr have conds: "expenses d x \<noteq> None
        \<and> (\<forall>k\<in>set (reconciliation_links d). rl_bank_transaction_id k = t \<longrightarrow> rl_expense_id k \<noteq> e)
        \<and> bank_transactions d t \<noteq> None"
        and d1: "d1 = d\<lparr>reconciliation_links := reconciliation_links d @ [?l]\<rparr>"
        using Some by (auto simp add: insert_expense_link_Inr)
      have "mark_expense t e d1 = ?d2"
        by (simp add: d1 Some mark_expense_Some)
      with run conds show ?thesis
        by simp
    qed
    have d2_fields:
      "reconciliation_links ?d2 = reconciliation_links d @ [?l]"
      "expenses ?d2 = (expenses d)(x := map_option (mark_row t) (expenses d x))"
      "bank_transactions ?d2 = bank_transactions d"
      by simp_all
    have link: "rl_expense_id ?l = e" "rl_bank_transaction_id ?l = t"
      by (simp_all add: expense_link_def)
    have A: "(\<forall>y. Some y \<in> set es \<longrightarrow> expenses ?d2 y \<noteq> None) \<longleftrightarrow>
        (\<forall>y. Some y \<in> set es \<longrightarrow> expenses d y \<noteq> None)" if "expenses d x \<noteq> None"
      using that by (auto simp add: d2_fields(2))
    have B: "(\<forall>k\<in>set (reconciliation_links ?d2).
          rl_bank_transaction_id k = t \<longrightarrow> rl_expense_id k \<notin> set es) \<longleftrightarrow>
        (\<forall>k\<in>set (reconciliation_links d).
          rl_bank_transaction_id k = t \<longrightarrow> rl_expense_id k \<notin> set es) \<and> e \<notin> set es"
      unfolding d2_fields(1) using link by auto
    have amounts: "(\<lambda>e. expense_link u t e (select_expense_amount ?d2 e)) =
        (\<lambda>e. expense_link u t e (select_expense_amount d e))"
      by (simp add: select_expense_amount_upd)
    have C: "?d2\<lparr>reconciliation_links := reconciliation_links ?d2
              @ map (\<lambda>e. expense_link u t e (select_expense_amount ?d2 e)) es,
            expenses := (\<lambda>i. if Some i \<in> set es then map_option (mark_row t) (expenses ?d2 i)
                              else expenses ?d2 i)\<rparr> =
          d\<lparr>reconciliation_links := reconciliation_links d
              @ map (\<lambda>e. expense_link u t e (select_expense_amount d e)) (e # es),
            expenses := (\<lambda>i. if Some i \<in> set (e # es)
                              then map_option (mark_row t) (expenses d i)
                              else expenses d i)\<rparr>" if "e \<notin> set es"
    proof -
      have "(\<lambda>i. if Some i \<in> set es then map_option (mark_row t) (expenses ?d2 i)
                  else expenses ?d2 i) =
            (\<lambda>i. if Some i \<in> set (e # es) then map_option (mark_row t) (expenses d i)
                  else expenses d i)"
        using that Some by (auto simp add: fun_eq_iff)
      then show ?thesis
        unfolding amounts by simp
    qed
    show ?thesis
    proof
      assume "add_expense_links u t (e # es) d = Inr d'"
      then have c: "expenses d x \<noteq> None"
          "\<forall>k\<in>set (reconciliation_links d). rl_bank_transaction_id k = t \<longrightarrow> rl_expense_id k \<noteq> e"
          "bank_transactions d t \<noteq> None"
        and r: "add_expense_links u t es ?d2 = Inr d'"
        unfolding step by blast+
      note r' = r [unfolded Cons.IH [of ?d2]]
      from r' have es: "None \<notin> set es" "distinct es" by blast+
      from r' A [OF c(1)] have a: "\<forall>y. Some y \<in> set es \<longrightarrow> expenses d y \<noteq> None" by blast
      from r' B have b: "\<forall>k\<in>set (reconciliation_links d).
          rl_bank_transaction_id k = t \<longrightarrow> rl_expense_id k \<notin> set es" and ne: "e \<notin> set es"
        by blast+
      from r' have "d' = ?d2\<lparr>reconciliation_links := reconciliation_links ?d2
              @ map (\<lambda>e. expense_link u t e (select_expense_amount ?d2 e)) es,
            expenses := (\<lambda>i. if Some i \<in> set es then map_option (mark_row t) (expenses ?d2 i)
                              else expenses ?d2 i)\<rparr>" by blast
      then have d': "d' = d\<lparr>reconciliation_links := reconciliation_links d
              @ map (\<lambda>e. expense_link u t e (select_expense_amount d e)) (e # es),
            expenses := (\<lambda>i. if Some i \<in> set (e # es)
                              then map_option (mark_row t) (expenses d i)
                              else expenses d i)\<rparr>"
        unfolding C [OF ne] .
      show "None \<notin> set (e # es) \<and> distinct (e # es)
        \<and> (\<forall>x. Some x \<in> set (e # es) \<longrightarrow> expenses d x \<noteq> None)
        \<and> (\<forall>k\<in>set (reconciliation_links d).
             rl_bank_transaction_id k = t \<longrightarrow> rl_expense_id k \<notin> set (e # es))
        \<and> (e # es \<noteq> [] \<longrightarrow> bank_transactions d t \<noteq> None)
        \<and> d' = d\<lparr>reconciliation_links := reconciliation_links d
                  @ map (\<lambda>e. expense_link u t e (select_expense_amount d e)) (e # es),
               expenses := (\<lambda>i. if Some i \<in> set (e # es)
                                 then map_option (mark_row t) (expenses d i)
                                 else expenses d i)\<rparr>"
        using es ne a b c d' Some by auto
    next
      assume rhs: "None \<notin> set (e # es) \<and> distinct (e # es)
        \<and> (\<forall>x. Some x \<in> set (e # es) \<longrightarrow> expenses d x \<noteq> None)
        \<and> (\<forall>k\<in>set (reconciliation_links d).
             rl_bank_transaction_id k = t \<longrightarrow> rl_expense_id k \<notin> set (e # es))
        \<and> (e # es \<noteq> [] \<longrightarrow> bank_transactions d t \<noteq> None)
        \<and> d' = d\<lparr>reconciliation_links := reconciliation_links d
                  @ map (\<lambda>e. expense_link u t e (select_expense_amount d e)) (e # es),
               expenses := (\<lambda>i. if Some i \<in> set (e # es)
                                 then map_option (mark_row t) (expenses d i)
                                 else expenses d i)\<rparr>"
      then have es: "None \<notin> set es" "distinct es" and ne: "e \<notin> set es"
        and c1: "expenses d x \<noteq> None"
        and a: "\<forall>y. Some y \<in> set es \<longrightarrow> expenses d y \<noteq> None"
        and b: "\<forall>k\<in>set (reconciliation_links d).
          rl_bank_transaction_id k = t \<longrightarrow> rl_expense_id k \<notin> set es"
        and c2: "\<forall>k\<in>set (reconciliation_links d). rl_bank_transaction_id k = t \<longrightarrow> rl_expense_id k \<noteq> e"
        and c3: "bank_transactions d t \<noteq> None"
        using Some by auto
      from rhs have d': "d' = ?d2\<lparr>reconciliation_links := reconciliation_links ?d2
              @ map (\<lambda>e. expense_link u t e (select_expense_amount ?d2 e)) es,
            expenses := (\<lambda>i. if Some i \<in> set es then map_option (mark_row t) (expenses ?d2 i)
                              else expenses ?d2 i)\<rparr>"
        unfolding C [OF ne] by blast
      have "add_expense_links u t es ?d2 = Inr d'"
        unfolding Cons.IH [of ?d2]
        using es A [OF c1] a B b ne c3 d' by (intro conjI) (blast, blast, blast, blast, simp, blast)
      then show "add_expense_links u t (e # es) d = Inr d'"
        unfolding step using c1 c2 c3 by blast
    qed
  qed
qed

lemma select_invoice_total_links:
  "select_invoice_total (d\<lparr>reconciliation_links := ls\<rparr>) i = select_invoice_total d i"
  by (simp add: select_invoice_total_def split: option.splits)

lemma add_invoice_links_Inr:
  "add_invoice_links u t ivs d = Inr d' \<longleftrightarrow>
     None \<notin> set ivs \<and> distinct ivs
     \<and> (\<forall>x. Some x \<in> set ivs \<longrightarrow> quotes d x \<noteq> None)
     \<and> (\<forall>k\<in>set (reconciliation_links d).
           rl_bank_transaction_id k = t \<longrightarrow> rl_invoice_id k \<notin> set ivs)
     \<and> (ivs \<noteq> [] \<longrightarrow> bank_transactions d t \<noteq> None)
     \<and> d' = d\<lparr>reconciliation_links := reconciliation_links d
                  @ map (\<lambda>i. invoice_link u t i (select_invoice_total d i)) ivs\<rparr>"
proof (induction ivs arbitrary: d)
  case Nil
  show ?case by auto
next
  case (Cons i ivs)
  let ?l = "invoice_link u t i (select_invoice_total d i)"
  let ?d1 = "d\<lparr>reconciliation_links := reconciliation_links d @ [?l]\<rparr>"
  have link: "rl_invoice_id ?l = i" "rl_bank_transaction_id ?l = t"
    by (simp_all add: invoice_link_def)
  have step: "add_invoice_links u t (i # ivs) d = Inr d' \<longleftrightarrow>
      (\<exists>x. i = Some x \<and> quotes d x \<noteq> None)
      \<and> (\<forall>k\<in>set (reconciliation_links d). rl_bank_transaction_id k = t \<longrightarrow> rl_invoice_id k \<noteq> i)
      \<and> bank_transactions d t \<noteq> None
      \<and> add_invoice_links u t ivs ?d1 = Inr d'"
  proof (cases "insert_link ?l d")
    case (Inl err)
    then have "\<not> ((\<exists>x. i = Some x \<and> quotes d x \<noteq> None)
      \<and> (\<forall>k\<in>set (reconciliation_links d). rl_bank_transaction_id k = t \<longrightarrow> rl_invoice_id k \<noteq> i)
      \<and> bank_transactions d t \<noteq> None)"
      using insert_invoice_link_Inr [of u t i "select_invoice_total d i" d ?d1]
      by auto
    with Inl show ?thesis
      by auto
  next
    case (Inr d1)
    have run: "add_invoice_links u t (i # ivs) d = add_invoice_links u t ivs d1"
      by (simp add: Inr)
    from Inr have conds: "(\<exists>x. i = Some x \<and> quotes d x \<noteq> None)
      \<and> (\<forall>k\<in>set (reconciliation_links d). rl_bank_transaction_id k = t \<longrightarrow> rl_invoice_id k \<noteq> i)
      \<and> bank_transactions d t \<noteq> None"
      and d1: "d1 = ?d1"
      by (auto simp add: insert_invoice_link_Inr)
    with run show ?thesis
      by simp
  qed
  have B: "(\<forall>k\<in>set (reconciliation_links ?d1).
        rl_bank_transaction_id k = t \<longrightarrow> rl_invoice_id k \<notin> set ivs) \<longleftrightarrow>
      (\<forall>k\<in>set (reconciliation_links d).
        rl_bank_transaction_id k = t \<longrightarrow> rl_invoice_id k \<notin> set ivs) \<and> i \<notin> set ivs"
    using link by auto
  have C: "?d1\<lparr>reconciliation_links := reconciliation_links ?d1
            @ map (\<lambda>i. invoice_link u t i (select_invoice_total ?d1 i)) ivs\<rparr> =
        d\<lparr>reconciliation_links := reconciliation_links d
            @ map (\<lambda>i. invoice_link u t i (select_invoice_total d i)) (i # ivs)\<rparr>"
    by (simp add: select_invoice_total_links)
  show ?case
    unfolding step Cons.IH [of ?d1] B C
    by (cases i) auto
qed

lemma sum_case_Inr:
  "(case x of Inl err \<Rightarrow> Inl err | Inr a \<Rightarrow> f a) = Inr b \<longleftrightarrow> (\<exists>a. x = Inr a \<and> f a = Inr b)"
  by (cases x) auto

lemma select_expense_amount_bind:
  "select_expense_amount d e = Option.bind e (\<lambda>x. Option.bind (expenses d x) ex_amount)"
  by (simp add: select_expense_amount_def split: option.splits)

lemma select_invoice_total_bind:
  "select_invoice_total d i = Option.bind i (\<lambda>x. Option.bind (quotes d x) q_total)"
  by (simp add: select_invoice_total_def split: option.splits)

lemma reconcile_transaction_multi_Inr:
  "reconcile_transaction_multi t pes pis d = Inr d' \<longleftrightarrow>
     (\<exists>r u. bank_transactions d t = Some r \<and> bt_user_id r = Some u
        \<and> None \<notin> set (nullish pes []) \<and> distinct (nullish pes [])
        \<and> (\<forall>x. Some x \<in> set (nullish pes []) \<longrightarrow> expenses d x \<noteq> None)
        \<and> None \<notin> set (nullish pis []) \<and> distinct (nullish pis [])
        \<and> (\<forall>x. Some x \<in> set (nullish pis []) \<longrightarrow> quotes d x \<noteq> None)
        \<and> d' = d\<lparr>reconciliation_links :=
                   filter (\<lambda>l. rl_bank_transaction_id l \<noteq> t) (reconciliation_links d)
                   @ map (\<lambda>e. expense_link u t e (select_expense_amount d e)) (nullish pes [])
                   @ map (\<lambda>i. invoice_link u t i (select_invoice_total d i)) (nullish pis []),
                 expenses := (\<lambda>i. if Some i \<in> set (nullish pes [])
                                   then map_option (mark_row t) (expenses d i)
                                   else expenses d i),
                 bank_transactions := (bank_transactions d)(t \<mapsto> r\<lparr>bt_is_reconciled := True\<rparr>)\<rparr>)"
proof (cases "bank_transactions d t")
  case None
  then show ?thesis
    by (simp add: reconcile_transaction_multi_def)
next
  case (Some r)
  show ?thesis
  proof (cases "bt_user_id r")
    case None
    with Some show ?thesis
      by (simp add: reconcile_transaction_multi_def)
  next
    case u: (Some u)
    let ?es = "nullish pes []" and ?ivs = "nullish pis []"
    define d1 where "d1 = d\<lparr>reconciliation_links :=
        filter (\<lambda>l. rl_bank_transaction_id l \<noteq> t) (reconciliation_links d)\<rparr>"
    define d2 where "d2 = d1\<lparr>reconciliation_links := reconciliation_links d1
                  @ map (\<lambda>e. expense_link u t e (select_expense_amount d1 e)) ?es,
               expenses := (\<lambda>i. if Some i \<in> set ?es then map_option (mark_row t) (expenses d1 i)
                                 else expenses d1 i)\<rparr>"
    define d3 where "d3 = d2\<lparr>reconciliation_links := reconciliation_links d2
                  @ map (\<lambda>i. invoice_link u t i (select_invoice_total d2 i)) ?ivs\<rparr>"
    define fin where "fin = d\<lparr>reconciliation_links :=
                   filter (\<lambda>l. rl_bank_transaction_id l \<noteq> t) (reconciliation_links d)
                   @ map (\<lambda>e. expense_link u t e (select_expense_amount d e)) ?es
                   @ map (\<lambda>i. invoice_link u t i (select_invoice_total d i)) ?ivs,
                 expenses := (\<lambda>i. if Some i \<in> set ?es
                                   then map_option (mark_row t) (expenses d i)
                                   else expenses d i),
                 bank_transactions := (bank_transactions d)(t \<mapsto> r\<lparr>bt_is_reconciled := True\<rparr>)\<rparr>"
    define CE where "CE \<longleftrightarrow> None \<notin> set ?es \<and> distinct ?es
        \<and> (\<forall>x. Some x \<in> set ?es \<longrightarrow> expenses d x \<noteq> None)"
    define CI where "CI \<longleftrightarrow> None \<notin> set ?ivs \<and> distinct ?ivs
        \<and> (\<forall>x. Some x \<in> set ?ivs \<longrightarrow> quotes d x \<noteq> None)"
    define flag where "flag = (\<lambda>y :: database. y\<lparr>bank_transactions :=
                 (case bank_transactions y t of
                    None \<Rightarrow> bank_transactions y
                  | Some r \<Rightarrow> (bank_transactions y)(t \<mapsto> r\<lparr>bt_is_reconciled := True\<rparr>))\<rparr>)"
    have e_loop: "(case pes of None \<Rightarrow> Inr x | Some es \<Rightarrow> add_expense_links v t es x) =
        add_expense_links v t ?es x" for x v
      by (cases pes) simp_all
    have i_loop: "(case pis of None \<Rightarrow> Inr x | Some ivs \<Rightarrow> add_invoice_links v t ivs x) =
        add_invoice_links v t ?ivs x" for x v
      by (cases pis) simp_all
    have unfold: "reconcile_transaction_multi t pes pis d = Inr d' \<longleftrightarrow>
        (\<exists>x. add_expense_links u t ?es d1 = Inr x
          \<and> (\<exists>y. add_invoice_links u t ?ivs x = Inr y \<and> d' = flag y))"
      unfolding reconcile_transaction_multi_def Let_def e_loop i_loop d1_def flag_def
      using Some u by (auto simp add: sum_case_Inr)
    have E: "add_expense_links u t ?es d1 = Inr x \<longleftrightarrow> CE \<and> x = d2" for x
      unfolding add_expense_links_Inr CE_def d2_def using Some by (simp add: d1_def)
    have field: "rl_invoice_id (expense_link u t e a) = None"
      "rl_bank_transaction_id (expense_link u t e a) = t" for e a
      by (simp_all add: expense_link_def)
    have "(\<forall>k\<in>set (reconciliation_links d2).
        rl_bank_transaction_id k = t \<longrightarrow> rl_invoice_id k \<notin> set ?ivs) \<longleftrightarrow>
        (\<forall>e\<in>set ?es. None \<notin> set ?ivs)"
      by (simp add: d2_def d1_def field ball_Un)
    then have inv_unique: "None \<notin> set ?ivs \<Longrightarrow> \<forall>k\<in>set (reconciliation_links d2).
        rl_bank_transaction_id k = t \<longrightarrow> rl_invoice_id k \<notin> set ?ivs"
      by blast
    have d2_tables: "quotes d2 = quotes d" "bank_transactions d2 = bank_transactions d"
      by (simp_all add: d2_def d1_def)
    have I: "add_invoice_links u t ?ivs d2 = Inr y \<longleftrightarrow> CI \<and> y = d3" for y
      unfolding add_invoice_links_Inr CI_def d3_def d2_tables using Some inv_unique by auto
    have final: "flag d3 = fin"
      unfolding flag_def d3_def d2_def d1_def fin_def
        select_expense_amount_bind select_invoice_total_bind
      using Some by (simp cong: if_cong)
    have "reconcile_transaction_multi t pes pis d = Inr d' \<longleftrightarrow> CE \<and> CI \<and> d' = fin"
      unfolding unfold E using final by (auto simp add: I)
    then show ?thesis
      unfolding CE_def CI_def fin_def using Some u by simp
  qed
qed

lemma filter_expense_links:
  "filter (\<lambda>l. rl_bank_transaction_id l \<noteq> t) (map (\<lambda>e. expense_link u t e (f e)) es) = []"
  by (induction es) (simp_all add: expense_link_def)

lemma filter_invoice_links:
  "filter (\<lambda>l. rl_bank_transaction_id l \<noteq> t) (map (\<lambda>i. invoice_link u t i (f i)) ivs) = []"
  by (induction ivs) (simp_all add: invoice_link_def)



lemma mark_row_twice:
  "map_option (mark_row t) (map_option (mark_row t) x) = map_option (mark_row t) x"
  by (cases x) (simp_all add: mark_row_def)

lemma reconcile_again:
  assumes "reconcile_transaction_multi t pes pis d = Inr d'"
  shows "reconcile_transaction_multi t pes pis d' = Inr d'"
proof -
  let ?es = "nullish pes []" and ?ivs = "nullish pis []"
  from assms obtain r u where r: "bank_transactions d t = Some r" and u: "bt_user_id r = Some u"
    and ce: "None \<notin> set ?es" "distinct ?es" "\<forall>x. Some x \<in> set ?es \<longrightarrow> expenses d x \<noteq> None"
    and ci: "None \<notin> set ?ivs" "distinct ?ivs" "\<forall>x. Some x \<in> set ?ivs \<longrightarrow> quotes d x \<noteq> None"
    and d': "d' = d\<lparr>reconciliation_links :=
                   filter (\<lambda>l. rl_bank_transaction_id l \<noteq> t) (reconciliation_links d)
                   @ map (\<lambda>e. expense_link u t e (select_expense_amount d e)) ?es
                   @ map (\<lambda>i. invoice_link u t i (select_invoice_total d i)) ?ivs,
                 expenses := (\<lambda>i. if Some i \<in> set ?es
                                   then map_option (mark_row t) (expenses d i)
                                   else expenses d i),
                 bank_transactions := (bank_transactions d)(t \<mapsto> r\<lparr>bt_is_reconciled := True\<rparr>)\<rparr>"
    unfolding reconcile_transaction_multi_Inr by blast
  let ?r' = "r\<lparr>bt_is_reconciled := True\<rparr>"
  have links: "reconciliation_links d' =
      filter (\<lambda>l. rl_bank_transaction_id l \<noteq> t) (reconciliation_links d)
      @ map (\<lambda>e. expense_link u t e (select_expense_amount d e)) ?es
      @ map (\<lambda>i. invoice_link u t i (select_invoice_total d i)) ?ivs"
    and expenses: "expenses d' = (\<lambda>i. if Some i \<in> set ?es
                                   then map_option (mark_row t) (expenses d i)
                                   else expenses d i)"
    and bank: "bank_transactions d' = (bank_transactions d)(t \<mapsto> ?r')"
    and quotes: "quotes d' = quotes d"
    by (simp_all add: d')
  have amounts: "select_expense_amount d' = select_expense_amount d"
    by (rule ext)
      (auto simp add: select_expense_amount_def expenses mark_row_def split: option.splits)
  have totals: "select_invoice_total d' = select_invoice_total d"
    by (rule ext) (simp add: select_invoice_total_bind quotes)
  have 1: "filter (\<lambda>l. rl_bank_transaction_id l \<noteq> t) (reconciliation_links d')
      @ map (\<lambda>e. expense_link u t e (select_expense_amount d' e)) ?es
      @ map (\<lambda>i. invoice_link u t i (select_invoice_total d' i)) ?ivs = reconciliation_links d'"
    unfolding amounts totals
    by (simp add: links filter_expense_links filter_invoice_links)
  have 2: "(\<lambda>i. if Some i \<in> set ?es then map_option (mark_row t) (expenses d' i)
                else expenses d' i) = expenses d'"
    by (rule ext) (simp add: expenses mark_row_twice)
  have 3: "(bank_transactions d')(t \<mapsto> ?r'\<lparr>bt_is_reconciled := True\<rparr>) = bank_transactions d'"
    by (simp add: bank)
  have same: "d' = d'\<lparr>reconciliation_links :=
                   filter (\<lambda>l. rl_bank_transaction_id l \<noteq> t) (reconciliation_links d')
                   @ map (\<lambda>e. expense_link u t e (select_expense_amount d' e)) ?es
                   @ map (\<lambda>i. invoice_link u t i (select_invoice_total d' i)) ?ivs,
                 expenses := (\<lambda>i. if Some i \<in> set ?es
                                   then map_option (mark_row t) (expenses d' i)
                                   else expenses d' i),
                 bank_transactions := (bank_transactions d')(t \<mapsto> ?r'\<lparr>bt_is_reconciled := True\<rparr>)\<rparr>"
    unfolding 1 2 3 by simp
  have ce': "\<forall>x. Some x \<in> set ?es \<longrightarrow> expenses d' x \<noteq> None"
    using ce(3) by (simp add: expenses)
  have ci': "\<forall>x. Some x \<in> set ?ivs \<longrightarrow> quotes d' x \<noteq> None"
    using ci(3) by (simp add: quotes)
  have r': "bank_transactions d' t = Some ?r'" "bt_user_id ?r' = Some u"
    using u by (simp_all add: bank)
  show ?thesis
    unfolding reconcile_transaction_multi_Inr
    using r' ce(1,2) ce' ci(1,2) ci' same by blast
qed


lemma reconcile_succeeds:
  assumes "bank_transactions d t = Some r" and "bt_user_id r = Some u"
    and "None \<notin> set es" and "distinct es" and "\<forall>x. Some x \<in> set es \<longrightarrow> expenses d x \<noteq> None"
    and "None \<notin> set ivs" and "distinct ivs" and "\<forall>x. Some x \<in> set ivs \<longrightarrow> quotes d x \<noteq> None"
  shows "\<exists>d'. reconcile_transaction_multi t (Some es) (Some ivs) d = Inr d'"
  unfolding reconcile_transaction_multi_Inr using assms by simp

lemma call_reconcile_twice:
  "call (reconcile_transaction_multi t pes pis) (call (reconcile_transaction_multi t pes pis) d) =
   call (reconcile_transaction_multi t pes pis) d"
proof (cases "reconcile_transaction_multi t pes pis d")
  case (Inl err)
  then show ?thesis by (simp add: call_def)
next
  case (Inr d')
  then show ?thesis by (simp add: call_def reconcile_again)
qed

text \<open>
  C4: \<open>reconcile_transaction_multi\<close> is idempotent. A successful call, repeated with the
  same arguments on the state it produced, succeeds again and leaves that state as it is
  (links with their matched amounts, reconciled flags and back-references); a client
  calling twice in succession therefore ends in the state of calling once, whatever the
  transaction id and the two lists are. The call does succeed for an existing
  transaction and lists of distinct ids of existing expenses and invoices.
\<close>

theorem reconcile_transaction_multi_idempotent:
  "(reconcile_transaction_multi t pes pis d = Inr d' \<longrightarrow>
      reconcile_transaction_multi t pes pis d' = Inr d')
   \<and> call (reconcile_transaction_multi t pes pis)
       (call (reconcile_transaction_multi t pes pis) d) =
     call (reconcile_transaction_multi t pes pis) d
   \<and> (bank_transactions d t = Some r \<and> bt_user_id r = Some u
       \<and> None \<notin> set es \<and> distinct es \<and> (\<forall>x. Some x \<in> set es \<longrightarrow> expenses d x \<noteq> None)
       \<and> None \<notin> set ivs \<and> distinct ivs \<and> (\<forall>x. Some x \<in> set ivs \<longrightarrow> quotes d x \<noteq> None)
       \<longrightarrow> (\<exists>d''. reconcile_transaction_multi t (Some es) (Some ivs) d = Inr d''))"
  using reconcile_again [of t pes pis d d'] call_reconcile_twice [of t pes pis d]
    reconcile_succeeds [of d t r u es ivs]
  by blast

lemma sample_db_rows:
  "bank_transactions sample_db 3 = Some \<lparr>bt_user_id = Some 9, bt_is_reconciled = True,
     bt_reconciled_expense_id = None, bt_reconciled_invoice_id = None\<rparr>"
  "bank_transactions sample_db 2 = Some \<lparr>bt_user_id = Some 9, bt_is_reconciled = False,
     bt_reconciled_expense_id = None, bt_reconciled_invoice_id = None\<rparr>"
  "expenses sample_db 10 = Some \<lparr>ex_amount = Some 12000, ex_is_reconciled = True,
     ex_reconciled_transaction_id = Some 3\<rparr>"
  "expenses sample_db 11 = Some \<lparr>ex_amount = Some 4550, ex_is_reconciled = False,
     ex_reconciled_transaction_id = None\<rparr>"
  "quotes sample_db 20 = Some \<lparr>q_total = Some 50000\<rparr>"
  by (simp_all add: sample_db_def)

theorem reconcile_transaction_multi_idempotent_witness:
  "\<exists>d'. reconcile_transaction_multi 3 (Some [Some 11, Some 10]) (Some [Some 20]) sample_db = Inr d'
     \<and> reconcile_transaction_multi 3 (Some [Some 11, Some 10]) (Some [Some 20]) d' = Inr d'
     \<and> call (reconcile_transaction_multi 3 (Some [Some 11, Some 10]) (Some [Some 20]))
         (call (reconcile_transaction_multi 3 (Some [Some 11, Some 10]) (Some [Some 20])) sample_db) = d'"
proof -
  note inst = reconcile_transaction_multi_idempotent
    [where t = 3 and pes = "Some [Some 11, Some 10]" and pis = "Some [Some 20]"
      and d = sample_db and es = "[Some 11, Some 10]" and ivs = "[Some 20]"
      and r = "\<lparr>bt_user_id = Some 9, bt_is_reconciled = True,
        bt_reconciled_expense_id = None, bt_reconciled_invoice_id = None\<rparr>" and u = 9]
  have "\<exists>d''. reconcile_transaction_multi 3 (Some [Some 11, Some 10]) (Some [Some 20]) sample_db
      = Inr d''"
    using inst [THEN conjunct2, THEN conjunct2] by (simp add: sample_db_rows)
  then obtain d' where
    d': "reconcile_transaction_multi 3 (Some [Some 11, Some 10]) (Some [Some 20]) sample_db = Inr d'"
    by blast
  have "reconcile_transaction_multi 3 (Some [Some 11, Some 10]) (Some [Some 20]) d' = Inr d'"
    using reconcile_transaction_multi_idempotent
      [where t = 3 and pes = "Some [Some 11, Some 10]" and pis = "Some [Some 20]"
        and d = sample_db and d' = d' and es = "[]" and ivs = "[]"] d'
    by blast
  then show ?thesis
    using d' by (auto simp add: call_def)
qed





text \<open>
  C9: for an existing transaction \<open>t\<close> and expense \<open>e\<close>, \<open>reconcile_transaction_multi(t, [e],
  [])\<close> succeeds, marks both reconciled and leaves one link; \<open>unreconcile_transaction(t)\<close>
  right after it sets the flag of \<open>t\<close> and of \<open>e\<close> back to false, clears the back-reference
  of \<open>e\<close> and removes the link. Unreconciling never changes an invoice.
\<close>

theorem unreconcile_after_reconcile:
  "(bank_transactions d t = Some r \<and> bt_user_id r = Some u \<and> expenses d e = Some x \<longrightarrow>
      (\<exists>d'. reconcile_transaction_multi t (Some [Some e]) (Some []) d = Inr d'
         \<and> map_option bt_is_reconciled (bank_transactions d' t) = Some True
         \<and> map_option ex_is_reconciled (expenses d' e) = Some True
         \<and> map_option ex_reconciled_transaction_id (expenses d' e) = Some (Some t)
         \<and> links_of t d' = [expense_link u t (Some e) (ex_amount x)]
         \<and> map_option bt_is_reconciled
             (bank_transactions (unreconcile_transaction t d') t) = Some False
         \<and> map_option ex_is_reconciled (expenses (unreconcile_transaction t d') e) = Some False
         \<and> map_option ex_reconciled_transaction_id
             (expenses (unreconcile_transaction t d') e) = Some None
         \<and> links_of t (unreconcile_transaction t d') = []))
   \<and> quotes (unreconcile_transaction t d0) = quotes d0"
proof (intro conjI impI)
  show "quotes (unreconcile_transaction t d0) = quotes d0"
    by (simp add: unreconcile_transaction_def Let_def)
next
  assume a: "bank_transactions d t = Some r \<and> bt_user_id r = Some u \<and> expenses d e = Some x"
  define d' where "d' = d\<lparr>reconciliation_links :=
                   filter (\<lambda>l. rl_bank_transaction_id l \<noteq> t) (reconciliation_links d)
                   @ [expense_link u t (Some e) (ex_amount x)],
                 expenses := (\<lambda>i. if i = e
                                   then map_option (mark_row t) (expenses d i)
                                   else expenses d i),
                 bank_transactions := (bank_transactions d)(t \<mapsto> r\<lparr>bt_is_reconciled := True\<rparr>)\<rparr>"
  have run: "reconcile_transaction_multi t (Some [Some e]) (Some []) d = Inr d'"
    unfolding reconcile_transaction_multi_Inr d'_def using a
    by (simp add: select_expense_amount_def)
  have fields:
    "bank_transactions d' t = Some (r\<lparr>bt_is_reconciled := True\<rparr>)"
    "expenses d' e = Some (mark_row t x)"
    "links_of t d' = [expense_link u t (Some e) (ex_amount x)]"
    using a by (simp_all add: d'_def links_of_def expense_link_def)
  have after:
    "map_option bt_is_reconciled (bank_transactions (unreconcile_transaction t d') t) = Some False"
    "map_option ex_is_reconciled (expenses (unreconcile_transaction t d') e) = Some False"
    "map_option ex_reconciled_transaction_id (expenses (unreconcile_transaction t d') e) = Some None"
    "links_of t (unreconcile_transaction t d') = []"
    using fields(1,2)
    by (simp_all add: unreconcile_transaction_def Let_def links_of_def mark_row_def)
  show "\<exists>d'. reconcile_transaction_multi t (Some [Some e]) (Some []) d = Inr d'
         \<and> map_option bt_is_reconciled (bank_transactions d' t) = Some True
         \<and> map_option ex_is_reconciled (expenses d' e) = Some True
         \<and> map_option ex_reconciled_transaction_id (expenses d' e) = Some (Some t)
         \<and> links_of t d' = [expense_link u t (Some e) (ex_amount x)]
         \<and> map_option bt_is_reconciled
             (bank_transactions (unreconcile_transaction t d') t) = Some False
         \<and> map_option ex_is_reconciled (expenses (unreconcile_transaction t d') e) = Some False
         \<and> map_option ex_reconciled_transaction_id
             (expenses (unreconcile_transaction t d') e) = Some None
         \<and> links_of t (unreconcile_transaction t d') = []"
    using run fields after by (intro exI [of _ d']) (simp add: mark_row_def)
qed

theorem unreconcile_after_reconcile_witness:
  "\<exists>d'. reconcile_transaction_multi 2 (Some [Some 11]) (Some []) sample_db = Inr d'
     \<and> map_option bt_is_reconciled (bank_transactions d' 2) = Some True
     \<and> map_option ex_is_reconciled (expenses d' 11) = Some True
     \<and> links_of 2 d' = [expense_link 9 2 (Some 11) (Some 4550)]
     \<and> map_option bt_is_reconciled (bank_transactions (unreconcile_transaction 2 d') 2) = Some False
     \<and> map_option ex_is_reconciled (expenses (unreconcile_transaction 2 d') 11) = Some False
     \<and> map_option ex_reconciled_transaction_id (expenses (unreconcile_transaction 2 d') 11) = Some None
     \<and> links_of 2 (unreconcile_transaction 2 d') = []
     \<and> quotes (unreconcile_transaction 2 d') 20 = Some \<lparr>q_total = Some 50000\<rparr>"
proof -
  note inst = unreconcile_after_reconcile
    [where d = sample_db and t = 2 and e = 11 and u = 9
      and r = "\<lparr>bt_user_id = Some 9, bt_is_reconciled = False,
        bt_reconciled_expense_id = None, bt_reconciled_invoice_id = None\<rparr>"
      and x = "\<lparr>ex_amount = Some 4550, ex_is_reconciled = False,
        ex_reconciled_transaction_id = None\<rparr>"]
  have hyp: "bank_transactions sample_db 2 = Some \<lparr>bt_user_id = Some 9, bt_is_reconciled = False,
        bt_reconciled_expense_id = None, bt_reconciled_invoice_id = None\<rparr>
      \<and> bt_user_id \<lparr>bt_user_id = Some 9, bt_is_reconciled = False,
        bt_reconciled_expense_id = None, bt_reconciled_invoice_id = None\<rparr> = Some 9
      \<and> expenses sample_db 11 = Some \<lparr>ex_amount = Some 4550, ex_is_reconciled = False,
        ex_reconciled_transaction_id = None\<rparr>"
    by (simp add: sample_db_rows)
  have "\<exists>d'. reconcile_transaction_multi 2 (Some [Some 11]) (Some []) sample_db = Inr d'
         \<and> map_option bt_is_reconciled (bank_transactions d' 2) = Some True
         \<and> map_option ex_is_reconciled (expenses d' 11) = Some True
         \<and> map_option ex_reconciled_transaction_id (expenses d' 11) = Some (Some 2)
         \<and> links_of 2 d' = [expense_link 9 2 (Some 11) (Some 4550)]
         \<and> map_option bt_is_reconciled
             (bank_transactions (unreconcile_transaction 2 d') 2) = Some False
         \<and> map_option ex_is_reconciled (expenses (unreconcile_transaction 2 d') 11) = Some False
         \<and> map_option ex_reconciled_transaction_id
             (expenses (unreconcile_transaction 2 d') 11) = Some None
         \<and> links_of 2 (unreconcile_transaction 2 d') = []"
    using inst [THEN conjunct1, THEN mp, OF hyp] by simp
  then obtain d' where
    d': "reconcile_transaction_multi 2 (Some [Some 11]) (Some []) sample_db = Inr d'
         \<and> map_option bt_is_reconciled (bank_transactions d' 2) = Some True
         \<and> map_option ex_is_reconciled (expenses d' 11) = Some True
         \<and> map_option ex_reconciled_transaction_id (expenses d' 11) = Some (Some 2)
         \<and> links_of 2 d' = [expense_link 9 2 (Some 11) (Some 4550)]
         \<and> map_option bt_is_reconciled
             (bank_transactions (unreconcile_transaction 2 d') 2) = Some False
         \<and> map_option ex_is_reconciled (expenses (unreconcile_transaction 2 d') 11) = Some False
         \<and> map_option ex_reconciled_transaction_id
             (expenses (unreconcile_transaction 2 d') 11) = Some None
         \<and> links_of 2 (unreconcile_transaction 2 d') = []"
    by blast
  have q: "quotes d' = quotes sample_db"
    using d' unfolding reconcile_transaction_multi_Inr by auto
  have "quotes (unreconcile_transaction 2 d') 20 = Some \<lparr>q_total = Some 50000\<rparr>"
    using unreconcile_after_reconcile [where ?d0.0 = d' and t = 2, THEN conjunct2] q
    by (simp add: sample_db_rows)
  with d' show ?thesis
    by blast
qed

end
